theory Spec2Isabelle
  imports Complex_Main "HOL-Library.AList" "HOL-Library.Sublist"
begin

chapter \<open>PurePyJasper: the report engine of \<^verbatim>\<open>pyjasper_lib\<close>\<close>

text \<open>
  The development follows the Python package \<^verbatim>\<open>src/pyjasper_lib\<close>:
  \<^verbatim>\<open>parsers.py\<close> (the template model, the JRXML parser and the expression evaluator),
  \<^verbatim>\<open>database.py\<close> (the data processor), \<^verbatim>\<open>renderers.py\<close> (the HTML and PDF
  renderers) and \<^verbatim>\<open>core.py\<close> (the report facade \<^verbatim>\<open>JasperReport\<close>).
  The first part gives the model, function by function and under the names of the source;
  the second part states and proves the properties.

  Conventions. A Python \<^verbatim>\<open>str\<close> is a \<^typ>\<open>string\<close>, read as the UTF-8 bytes of the
  text, so that \<^verbatim>\<open>encode('utf-8')\<close> is the identity; every pattern the code looks for
  is ASCII. A \<^verbatim>\<open>dict\<close> is an association list in insertion order, read with
  \<^const>\<open>map_of\<close> and written with \<^const>\<open>AList.update\<close>. An exception is the left summand
  of a result. What the code hands to the Python run time or to a library (\<^verbatim>\<open>eval\<close>,
  \<^verbatim>\<open>float\<close>, \<^verbatim>\<open>int\<close>, number formatting, \<^verbatim>\<open>str.title\<close>, the database driver) is a
  parameter of the model: the record \<open>host\<close> and the record \<open>database_engine\<close>.
\<close>

section \<open>Python values, texts and dictionaries\<close>

text \<open>
  The values found in data rows, in the variable map and in the parameter map. A float is
  modelled by the rational it denotes: sums of floats are exact in the model (they are exact
  in Python as well on the small integers of the examples).
\<close>

datatype pyval = PyNone | PyInt int | PyFloat rat | PyStr string

text \<open>Python's \<^verbatim>\<open>==\<close> on these values, which is how a \<^verbatim>\<open>dict\<close> compares keys:
  \<^verbatim>\<open>1 == 1.0\<close>.\<close>

fun py_eq :: "pyval \<Rightarrow> pyval \<Rightarrow> bool" where
  "py_eq (PyInt i) (PyFloat r) = (of_int i = r)"
| "py_eq (PyFloat r) (PyInt i) = (r = of_int i)"
| "py_eq a b = (a = b)"

type_synonym 'v dict = "(string \<times> 'v) list"
type_synonym row = "pyval dict"

text \<open>\<^verbatim>\<open>d.get(k, default)\<close> and \<^verbatim>\<open>k in d\<close>.\<close>

definition dict_get :: "'v dict \<Rightarrow> string \<Rightarrow> 'v \<Rightarrow> 'v" where
  "dict_get d k dflt = (case map_of d k of None \<Rightarrow> dflt | Some v \<Rightarrow> v)"

definition dict_has :: "'v dict \<Rightarrow> string \<Rightarrow> bool" where
  "dict_has d k = (map_of d k \<noteq> None)"

text \<open>The truth value Python gives to an optional text: \<^verbatim>\<open>None\<close> and \<^verbatim>\<open>''\<close> are false.\<close>

fun truthy :: "string option \<Rightarrow> bool" where
  "truthy None = False"
| "truthy (Some s) = (s \<noteq> [])"

text \<open>\<^verbatim>\<open>s or ''\<close> for an optional text.\<close>

fun or_empty :: "string option \<Rightarrow> string" where
  "or_empty None = []"
| "or_empty (Some s) = s"

definition sq :: char where
  "sq = CHR 0x27"

definition dq :: char where
  "dq = CHR 0x22"

definition nl :: char where
  "nl = CHR 0x0A"

text \<open>\<^verbatim>\<open>str.isspace\<close> on ASCII, \<^verbatim>\<open>str.strip()\<close>, \<^verbatim>\<open>str.lower()\<close> and \<^verbatim>\<open>str.upper()\<close> on the
  ASCII letters (no other character maps to an ASCII letter that the code looks for).\<close>

definition is_space :: "char \<Rightarrow> bool" where
  "is_space c = (let n = (of_char c :: nat) in (9 \<le> n \<and> n \<le> 13) \<or> (28 \<le> n \<and> n \<le> 32))"

definition py_strip :: "string \<Rightarrow> string" where
  "py_strip s = rev (dropWhile is_space (rev (dropWhile is_space s)))"

definition lower_char :: "char \<Rightarrow> char" where
  "lower_char c = (let n = (of_char c :: nat) in if 65 \<le> n \<and> n \<le> 90 then char_of (n + 32) else c)"

definition upper_char :: "char \<Rightarrow> char" where
  "upper_char c = (let n = (of_char c :: nat) in if 97 \<le> n \<and> n \<le> 122 then char_of (n - 32) else c)"

definition py_lower :: "string \<Rightarrow> string" where
  "py_lower s = map lower_char s"

definition py_upper :: "string \<Rightarrow> string" where
  "py_upper s = map upper_char s"

text \<open>\<^verbatim>\<open>sub in s\<close> for texts.\<close>

fun contains :: "string \<Rightarrow> string \<Rightarrow> bool" where
  "contains sub [] = (sub = [])"
| "contains sub (c # cs) = (prefix sub (c # cs) \<or> contains sub cs)"

text \<open>\<^verbatim>\<open>s.replace(old, new)\<close>: the occurrences of \<open>old\<close> from left to right, without overlap.
  The code only replaces non-empty texts; for an empty \<open>old\<close> the model returns \<open>s\<close>.\<close>

function str_replace :: "string \<Rightarrow> string \<Rightarrow> string \<Rightarrow> string" where
  "str_replace old new [] = []"
| "str_replace old new (c # cs) =
     (if old \<noteq> [] \<and> prefix old (c # cs)
      then new @ str_replace old new (drop (length old) (c # cs))
      else c # str_replace old new cs)"
  by pat_completeness auto
termination
  by (relation "measure (\<lambda>(old, new, s). length s)") auto

text \<open>The slice \<^verbatim>\<open>s[a:-b]\<close> and the slice \<^verbatim>\<open>xs[:limit]\<close>, whose limit may be negative.\<close>

definition slice_inner :: "nat \<Rightarrow> nat \<Rightarrow> 'a list \<Rightarrow> 'a list" where
  "slice_inner a b s = drop a (take (length s - b) s)"

definition py_take :: "int \<Rightarrow> 'a list \<Rightarrow> 'a list" where
  "py_take limit xs =
     (if 0 \<le> limit then take (nat limit) xs else take (nat (int (length xs) + limit)) xs)"

text \<open>\<^verbatim>\<open>str(n)\<close> for an integer.\<close>

definition digit_char :: "nat \<Rightarrow> char" where
  "digit_char d = char_of (48 + d)"

function str_nat :: "nat \<Rightarrow> string" where
  "str_nat n = (if n < 10 then [digit_char n] else str_nat (n div 10) @ [digit_char (n mod 10)])"
  by pat_completeness auto
termination
  by (relation "measure id") auto

definition str_int :: "int \<Rightarrow> string" where
  "str_int i = (if i < 0 then CHR ''-'' # str_nat (nat (- i)) else str_nat (nat i))"

section \<open>The reference pattern\<close>

text \<open>
  The three regular expressions of the code are \<^verbatim>\<open>\$F\{([^}]+)\}\<close>, \<^verbatim>\<open>\$V\{([^}]+)\}\<close> and
  \<^verbatim>\<open>\$P\{([^}]+)\}\<close>. A match at the start of a text is the dollar sign, the letter and
  the opening brace, then a non-empty run of characters other than the closing brace, then
  the closing brace; the run cannot be cut short, since only a closing brace may follow it.
  \<open>ref_at\<close> returns the group (the name) and the text after the match.
\<close>

definition ref_at :: "char \<Rightarrow> string \<Rightarrow> (string \<times> string) option" where
  "ref_at x s =
     (if prefix [CHR ''$'', x, CHR ''{''] s then
        (let body = drop 3 s;
             name = takeWhile (\<lambda>c. c \<noteq> CHR ''}'') body;
             rest = dropWhile (\<lambda>c. c \<noteq> CHR ''}'') body
         in if name \<noteq> [] \<and> rest \<noteq> [] then Some (name, tl rest) else None)
      else None)"

lemma ref_at_shorter [termination_simp]:
  "ref_at x s = Some (name, rest) \<Longrightarrow> length rest < length s"
proof -
  assume a: "ref_at x s = Some (name, rest)"
  let ?body = "drop 3 s"
  let ?r = "dropWhile (\<lambda>c. c \<noteq> CHR ''}'') ?body"
  from a have r: "?r \<noteq> []" "rest = tl ?r"
    by (auto simp: ref_at_def Let_def split: if_splits)
  have "length ?r \<le> length ?body" by (rule length_dropWhile_le)
  with r show ?thesis by (cases ?r) auto
qed

text \<open>\<^verbatim>\<open>re.findall\<close>: the groups of the matches from left to right, without overlap.\<close>

function find_refs :: "char \<Rightarrow> string \<Rightarrow> string list" where
  "find_refs x [] = []"
| "find_refs x (c # cs) =
     (case ref_at x (c # cs) of
        Some (name, rest) \<Rightarrow> name # find_refs x rest
      | None \<Rightarrow> find_refs x cs)"
  by pat_completeness auto
termination
  by (relation "measure (\<lambda>(x, s). length s)") (auto dest: ref_at_shorter)

text \<open>\<^verbatim>\<open>re.sub\<close> with a function of the group: each match is replaced by \<open>repl name\<close>.\<close>

function sub_refs :: "char \<Rightarrow> (string \<Rightarrow> string) \<Rightarrow> string \<Rightarrow> string" where
  "sub_refs x repl [] = []"
| "sub_refs x repl (c # cs) =
     (case ref_at x (c # cs) of
        Some (name, rest) \<Rightarrow> repl name @ sub_refs x repl rest
      | None \<Rightarrow> c # sub_refs x repl cs)"
  by pat_completeness auto
termination
  by (relation "measure (\<lambda>(x, repl, s). length s)") (auto dest: ref_at_shorter)

text \<open>\<^verbatim>\<open>re.search\<close> followed by \<^verbatim>\<open>group(1)\<close>: the group of the first match, if any.\<close>

definition search_ref :: "char \<Rightarrow> string \<Rightarrow> string option" where
  "search_ref x s = (case find_refs x s of [] \<Rightarrow> None | name # _ \<Rightarrow> Some name)"

section \<open>The template model (\<^verbatim>\<open>parsers.py\<close>)\<close>

text \<open>The dataclasses \<^verbatim>\<open>Field\<close>, \<^verbatim>\<open>Variable\<close>, \<^verbatim>\<open>Group\<close>, \<^verbatim>\<open>ReportElement\<close>, \<^verbatim>\<open>Band\<close>
  and \<^verbatim>\<open>ReportDefinition\<close>. The style dictionary of an element holds the seven keys the
  parser writes; a key that is absent is \<open>None\<close>.\<close>

record field_def =
  field_name :: string
  field_class_name :: string
  field_description :: "string option"

record variable =
  var_name :: string
  var_class_name :: string
  var_calculation :: string
  var_expression :: "string option"
  var_initial_value :: "string option"
  var_reset_type :: string
  var_reset_group :: "string option"

record group_def =
  group_name :: string
  group_expression :: string
  header_height :: int
  footer_height :: int

record element_style =
  textAlignment :: "string option"
  verticalAlignment :: "string option"
  fontSize :: "int option"
  fontName :: "string option"
  isBold :: "bool option"
  isItalic :: "bool option"
  isUnderline :: "bool option"

record report_element =
  el_x :: int
  el_y :: int
  el_width :: int
  el_height :: int
  element_type :: string
  el_content :: "string option"
  el_expression :: "string option"
  el_style :: element_style

record band =
  band_name :: string
  band_height :: int
  band_elements :: "report_element list"

record param_spec =
  param_class :: string
  param_default :: "string option"

record report_definition =
  rd_name :: string
  page_width :: int
  page_height :: int
  column_width :: int
  left_margin :: int
  right_margin :: int
  top_margin :: int
  bottom_margin :: int
  rd_query :: "string option"
  rd_fields :: "field_def list"
  rd_variables :: "variable list"
  rd_groups :: "group_def list"
  rd_bands :: "band dict"
  rd_parameters :: "param_spec dict"

section \<open>The host\<close>

text \<open>
  The state of an \<^verbatim>\<open>ExpressionEvaluator\<close>: the row, the variable map and the parameter map.
\<close>

record evaluator =
  ev_data :: row
  ev_variables :: row
  ev_parameters :: row

text \<open>
  What the code asks of Python itself:
  \<^item> \<open>eval_str text self\<close> is \<^verbatim>\<open>str(eval(text))\<close> inside the method
    \<^verbatim>\<open>ExpressionEvaluator.evaluate\<close> of the object \<open>self\<close>; \<open>None\<close> when it raises;
  \<^item> \<open>float_parse s\<close> is \<^verbatim>\<open>float(s)\<close> for a text; \<open>None\<close> for \<^verbatim>\<open>ValueError\<close>;
  \<^item> \<open>float_str x\<close> is \<^verbatim>\<open>str(x)\<close> for a float;
  \<^item> \<open>format_2f x\<close> is the format \<^verbatim>\<open>{x:.2f}\<close>;
  \<^item> \<open>currency s\<close> is \<^verbatim>\<open>float(s)\<close> followed by the format \<^verbatim>\<open>${value:.2f}\<close>; \<open>None\<close> for
    \<^verbatim>\<open>ValueError\<close>;
  \<^item> \<open>int_parse s\<close> is \<^verbatim>\<open>int(s)\<close> for a text; \<open>None\<close> for \<^verbatim>\<open>ValueError\<close>;
  \<^item> \<open>title_case s\<close> is \<^verbatim>\<open>s.title()\<close>.
  The model assumes that \<^verbatim>\<open>eval\<close> returns or raises, and leaves the three maps as they are.
\<close>

record host =
  eval_str :: "string \<Rightarrow> evaluator \<Rightarrow> string option"
  float_parse :: "string \<Rightarrow> rat option"
  float_str :: "rat \<Rightarrow> string"
  format_2f :: "rat \<Rightarrow> string"
  currency :: "string \<Rightarrow> string option"
  int_parse :: "string \<Rightarrow> int option"
  title_case :: "string \<Rightarrow> string"

text \<open>\<^verbatim>\<open>str(v)\<close> for a value.\<close>

fun py_str :: "host \<Rightarrow> pyval \<Rightarrow> string" where
  "py_str h PyNone = ''None''"
| "py_str h (PyInt i) = str_int i"
| "py_str h (PyFloat r) = float_str h r"
| "py_str h (PyStr s) = s"

text \<open>The truth value of a value: \<^verbatim>\<open>None\<close>, zero and the empty text are false.\<close>

fun py_bool :: "pyval \<Rightarrow> bool" where
  "py_bool PyNone = False"
| "py_bool (PyInt i) = (i \<noteq> 0)"
| "py_bool (PyFloat r) = (r \<noteq> 0)"
| "py_bool (PyStr s) = (s \<noteq> [])"

section \<open>The expression evaluator (\<^verbatim>\<open>parsers.py\<close>, \<^verbatim>\<open>ExpressionEvaluator\<close>)\<close>

text \<open>The constructor: \<^verbatim>\<open>data or {}\<close> is the dictionary itself, or the empty one.\<close>

definition ExpressionEvaluator :: "row \<Rightarrow> row \<Rightarrow> row \<Rightarrow> evaluator" where
  "ExpressionEvaluator data variables parameters =
     \<lparr>ev_data = data, ev_variables = variables, ev_parameters = parameters\<rparr>"

text \<open>The text that replaces a reference: \<^verbatim>\<open>self.data.get('NAME', '')\<close> for a field, and
  the same with \<^verbatim>\<open>variables\<close> and \<^verbatim>\<open>parameters\<close>.\<close>

definition get_call :: "string \<Rightarrow> string \<Rightarrow> string" where
  "get_call store name = ''self.'' @ store @ ''.get('' @ [sq] @ name @ [sq] @ '', '' @ [sq, sq] @ '')''"

definition cdata_open :: string where
  "cdata_open = ''<![CDATA[''"

definition cdata_close :: string where
  "cdata_close = '']]>''"

text \<open>\<^verbatim>\<open>if s.startswith('<![CDATA[') and s.endswith(']]>'): s = s[9:-3]\<close>\<close>

definition strip_cdata :: "string \<Rightarrow> string" where
  "strip_cdata s = (if prefix cdata_open s \<and> suffix cdata_close s then slice_inner 9 3 s else s)"

text \<open>The rewriting of the expression that \<^verbatim>\<open>evaluate\<close> does before it evaluates: the
  wrapper, the three kinds of references, then the two replacements for \<^verbatim>\<open>' + '\<close>.\<close>

definition rewrite_refs :: "string \<Rightarrow> string" where
  "rewrite_refs e =
     sub_refs (CHR ''P'') (get_call ''parameters'')
       (sub_refs (CHR ''V'') (get_call ''variables'')
          (sub_refs (CHR ''F'') (get_call ''data'') e))"

definition rewrite_concat :: "string \<Rightarrow> string" where
  "rewrite_concat e =
     (let e1 = str_replace '' + '' '' + str('' e
      in if contains '' + str('' e1 then str_replace '' + str('' '') + str('' e1 @ '')'' else e1)"

definition rewrite :: "string \<Rightarrow> string" where
  "rewrite e = rewrite_concat (rewrite_refs (strip_cdata e))"

text \<open>\<^verbatim>\<open>evaluate\<close>. The bare \<^verbatim>\<open>except\<close> answers every exception of \<^verbatim>\<open>eval\<close> and of
  \<^verbatim>\<open>str\<close> with the text of the variable \<^verbatim>\<open>expression\<close>, which by then is the rewritten
  text.\<close>

definition evaluate :: "host \<Rightarrow> evaluator \<Rightarrow> string \<Rightarrow> string" where
  "evaluate h self expression =
     (if expression = [] then []
      else
        (let e = rewrite expression
         in if prefix [dq] e \<and> suffix [dq] e then slice_inner 1 1 e
            else (case eval_str h e self of Some s \<Rightarrow> s | None \<Rightarrow> e)))"

section \<open>The data processor (\<^verbatim>\<open>database.py\<close>, \<^verbatim>\<open>DataProcessor\<close>)\<close>

text \<open>\<^verbatim>\<open>group_by\<close>: a dictionary from the key to the rows that carry it. A key that is
  already in the dictionary keeps its place and gets the row appended; a new key goes last.\<close>

definition row_key :: "string \<Rightarrow> row \<Rightarrow> pyval" where
  "row_key field r = dict_get r field PyNone"

fun group_insert :: "pyval \<Rightarrow> row \<Rightarrow> (pyval \<times> row list) list \<Rightarrow> (pyval \<times> row list) list" where
  "group_insert k r [] = [(k, [r])]"
| "group_insert k r ((k', rs) # gs) =
     (if py_eq k' k then (k', rs @ [r]) # gs else (k', rs) # group_insert k r gs)"

definition group_by :: "string \<Rightarrow> row list \<Rightarrow> (pyval \<times> row list) list" where
  "group_by field data = foldl (\<lambda>groups r. group_insert (row_key field r) r groups) [] data"

text \<open>\<^verbatim>\<open>calculate_sum\<close>: a float that starts at \<^verbatim>\<open>0.0\<close>; an integer or a float is added, a
  text is added when \<^verbatim>\<open>float\<close> reads it, anything else is passed over. A row without the
  field counts as the integer 0.\<close>

definition sum_step :: "host \<Rightarrow> string \<Rightarrow> rat \<Rightarrow> row \<Rightarrow> rat" where
  "sum_step h field tot r =
     (case dict_get r field (PyInt 0) of
        PyInt i \<Rightarrow> tot + of_int i
      | PyFloat x \<Rightarrow> tot + x
      | PyStr s \<Rightarrow> (case float_parse h s of Some x \<Rightarrow> tot + x | None \<Rightarrow> tot)
      | PyNone \<Rightarrow> tot)"

definition calculate_sum :: "host \<Rightarrow> string \<Rightarrow> row list \<Rightarrow> rat" where
  "calculate_sum h field data = foldl (sum_step h field) 0 data"

text \<open>For the statement of what \<^verbatim>\<open>group_by\<close> computes: the distinct keys of a key sequence,
  in the order of their first occurrence (this function is not in the source).\<close>

fun first_keys :: "pyval list \<Rightarrow> pyval list" where
  "first_keys [] = []"
| "first_keys (k # ks) = k # first_keys (filter (\<lambda>k'. \<not> py_eq k k') ks)"

section \<open>The JRXML parser (\<^verbatim>\<open>parsers.py\<close>, \<^verbatim>\<open>JRXMLParser\<close>)\<close>

text \<open>
  The exceptions of \<^verbatim>\<open>exceptions.py\<close> that the modelled code raises.
\<close>

datatype error = JRXMLParseError | DatabaseError | JasperError | RenderError

definition bind_r :: "error + 'a \<Rightarrow> ('a \<Rightarrow> error + 'b) \<Rightarrow> error + 'b" where
  "bind_r m f = (case m of Inl e \<Rightarrow> Inl e | Inr v \<Rightarrow> f v)"

fun sequence_r :: "(error + 'a) list \<Rightarrow> error + 'a list" where
  "sequence_r [] = Inr []"
| "sequence_r (m # ms) = bind_r m (\<lambda>v. bind_r (sequence_r ms) (\<lambda>vs. Inr (v # vs)))"

text \<open>
  The parser works on the element tree that \<^verbatim>\<open>xml.etree.ElementTree.fromstring\<close> returns:
  an element has a tag (\<^verbatim>\<open>{uri}local\<close> when it is in a namespace), attributes, the text
  before its first child, and children. The XML reader itself is outside the model.
\<close>

datatype xml = Element (xml_tag: string) (xml_attrib: "string dict") (xml_text: "string option")
  (xml_children: "xml list")

text \<open>The descendants of an element in document order, the element itself left out: what
  the path \<^verbatim>\<open>.//tag\<close> ranges over.\<close>

fun descendants :: "xml \<Rightarrow> xml list" where
  "descendants (Element t a x cs) = concat (map (\<lambda>c. c # descendants c) cs)"

definition first :: "'a list \<Rightarrow> 'a option" where
  "first xs = (case xs of [] \<Rightarrow> None | x # _ \<Rightarrow> Some x)"

text \<open>\<^verbatim>\<open>e.findall('.//T')\<close>, \<^verbatim>\<open>e.findall('T')\<close>, and the two-step paths \<^verbatim>\<open>.//A/B\<close> and
  \<^verbatim>\<open>A/B\<close>; \<^verbatim>\<open>find\<close> is the first element of \<^verbatim>\<open>findall\<close>.\<close>

definition findall_desc :: "string \<Rightarrow> xml \<Rightarrow> xml list" where
  "findall_desc t e = filter (\<lambda>d. xml_tag d = t) (descendants e)"

definition findall_child :: "string \<Rightarrow> xml \<Rightarrow> xml list" where
  "findall_child t e = filter (\<lambda>c. xml_tag c = t) (xml_children e)"

definition findall_desc_child :: "string \<Rightarrow> string \<Rightarrow> xml \<Rightarrow> xml list" where
  "findall_desc_child a b e = concat (map (findall_child b) (findall_desc a e))"

definition findall_child_child :: "string \<Rightarrow> string \<Rightarrow> xml \<Rightarrow> xml list" where
  "findall_child_child a b e = concat (map (findall_child b) (findall_child a e))"

text \<open>A name with the prefix \<^verbatim>\<open>jr:\<close> stands for the name in the namespace of the parser.\<close>

definition qn :: "string \<Rightarrow> string \<Rightarrow> string" where
  "qn ns name = ''{'' @ ns @ ''}'' @ name"

text \<open>The pattern of every lookup of the parser: the qualified path first, the plain path
  when the qualified one finds nothing.\<close>

definition find_desc2 :: "string \<Rightarrow> string \<Rightarrow> xml \<Rightarrow> xml option" where
  "find_desc2 ns name e =
     (case first (findall_desc (qn ns name) e) of
        None \<Rightarrow> first (findall_desc name e)
      | Some r \<Rightarrow> Some r)"

definition find_child2 :: "string \<Rightarrow> string \<Rightarrow> xml \<Rightarrow> xml option" where
  "find_child2 ns name e =
     (case first (findall_child (qn ns name) e) of
        None \<Rightarrow> first (findall_child name e)
      | Some r \<Rightarrow> Some r)"

definition findall_desc2 :: "string \<Rightarrow> string \<Rightarrow> xml \<Rightarrow> xml list" where
  "findall_desc2 ns name e =
     (case findall_desc (qn ns name) e of
        [] \<Rightarrow> findall_desc name e
      | r # rs \<Rightarrow> r # rs)"

definition find_desc_child2 :: "string \<Rightarrow> string \<Rightarrow> string \<Rightarrow> xml \<Rightarrow> xml option" where
  "find_desc_child2 ns a b e =
     (case first (findall_desc_child (qn ns a) (qn ns b) e) of
        None \<Rightarrow> first (findall_desc_child a b e)
      | Some r \<Rightarrow> Some r)"

definition find_child_child2 :: "string \<Rightarrow> string \<Rightarrow> string \<Rightarrow> xml \<Rightarrow> xml option" where
  "find_child_child2 ns a b e =
     (case first (findall_child_child (qn ns a) (qn ns b) e) of
        None \<Rightarrow> first (findall_child_child a b e)
      | Some r \<Rightarrow> Some r)"

text \<open>\<^verbatim>\<open>int(e.get(key, default))\<close>: the default is an integer already; an attribute that
  \<^verbatim>\<open>int\<close> cannot read raises, and \<^verbatim>\<open>parse\<close> turns every exception into
  \<^verbatim>\<open>JRXMLParseError\<close>.\<close>

definition int_attr :: "host \<Rightarrow> xml \<Rightarrow> string \<Rightarrow> int \<Rightarrow> error + int" where
  "int_attr h e key dflt =
     (case map_of (xml_attrib e) key of
        None \<Rightarrow> Inr dflt
      | Some s \<Rightarrow> (case int_parse h s of None \<Rightarrow> Inl JRXMLParseError | Some i \<Rightarrow> Inr i))"

text \<open>\<^verbatim>\<open>x.text.strip()\<close> when the element is there and its text is not empty.\<close>

definition stripped_text :: "xml option \<Rightarrow> string option" where
  "stripped_text eo =
     (case eo of
        None \<Rightarrow> None
      | Some e \<Rightarrow> (if truthy (xml_text e) then Some (py_strip (or_empty (xml_text e))) else None))"

text \<open>\<^verbatim>\<open>_parse_query\<close>\<close>

definition parse_query :: "string \<Rightarrow> xml \<Rightarrow> string option" where
  "parse_query ns root_elem =
     (case find_desc2 ns ''queryString'' root_elem of
        None \<Rightarrow> None
      | Some query_elem \<Rightarrow>
          (if truthy (xml_text query_elem)
           then Some (py_strip (strip_cdata (py_strip (or_empty (xml_text query_elem)))))
           else None))"

text \<open>\<^verbatim>\<open>_parse_fields\<close>\<close>

definition parse_field :: "string \<Rightarrow> xml \<Rightarrow> field_def list" where
  "parse_field ns field_elem =
     (let name = map_of (xml_attrib field_elem) ''name''
      in if truthy name
         then [\<lparr>field_name = or_empty name,
                field_class_name = dict_get (xml_attrib field_elem) ''class'' ''java.lang.String'',
                field_description = stripped_text (find_child2 ns ''fieldDescription'' field_elem)\<rparr>]
         else [])"

definition parse_fields :: "string \<Rightarrow> xml \<Rightarrow> field_def list" where
  "parse_fields ns root_elem = concat (map (parse_field ns) (findall_desc2 ns ''field'' root_elem))"

text \<open>\<^verbatim>\<open>_parse_variables\<close>\<close>

definition parse_variable :: "string \<Rightarrow> xml \<Rightarrow> variable list" where
  "parse_variable ns var_elem =
     (let name = map_of (xml_attrib var_elem) ''name''
      in if truthy name
         then [\<lparr>var_name = or_empty name,
                var_class_name = dict_get (xml_attrib var_elem) ''class'' ''java.lang.String'',
                var_calculation = dict_get (xml_attrib var_elem) ''calculation'' ''Nothing'',
                var_expression = stripped_text (find_child2 ns ''variableExpression'' var_elem),
                var_initial_value =
                  stripped_text (find_child2 ns ''initialValueExpression'' var_elem),
                var_reset_type = dict_get (xml_attrib var_elem) ''resetType'' ''Report'',
                var_reset_group = map_of (xml_attrib var_elem) ''resetGroup''\<rparr>]
         else [])"

definition parse_variables :: "string \<Rightarrow> xml \<Rightarrow> variable list" where
  "parse_variables ns root_elem = concat (map (parse_variable ns) (findall_desc2 ns ''variable'' root_elem))"

text \<open>\<^verbatim>\<open>_parse_groups\<close>\<close>

definition band_height_of :: "host \<Rightarrow> xml option \<Rightarrow> error + int" where
  "band_height_of h eo = (case eo of None \<Rightarrow> Inr 0 | Some e \<Rightarrow> int_attr h e ''height'' 0)"

definition parse_group :: "host \<Rightarrow> string \<Rightarrow> xml \<Rightarrow> error + group_def list" where
  "parse_group h ns group_elem =
     (let name = map_of (xml_attrib group_elem) ''name''
      in if truthy name
         then
           bind_r (band_height_of h (find_child_child2 ns ''groupHeader'' ''band'' group_elem))
             (\<lambda>hh. bind_r (band_height_of h (find_child_child2 ns ''groupFooter'' ''band'' group_elem))
               (\<lambda>fh. Inr [\<lparr>group_name = or_empty name,
                           group_expression =
                             or_empty (stripped_text (find_child2 ns ''groupExpression'' group_elem)),
                           header_height = hh,
                           footer_height = fh\<rparr>]))
         else Inr [])"

definition parse_groups :: "host \<Rightarrow> string \<Rightarrow> xml \<Rightarrow> error + group_def list" where
  "parse_groups h ns root_elem =
     bind_r (sequence_r (map (parse_group h ns) (findall_desc2 ns ''group'' root_elem)))
       (\<lambda>gs. Inr (concat gs))"

text \<open>\<^verbatim>\<open>_parse_style\<close>\<close>

definition flag_attr :: "xml \<Rightarrow> string \<Rightarrow> bool" where
  "flag_attr e key = (py_lower (dict_get (xml_attrib e) key ''false'') = ''true'')"

definition no_style :: element_style where
  "no_style = \<lparr>textAlignment = None, verticalAlignment = None, fontSize = None, fontName = None,
     isBold = None, isItalic = None, isUnderline = None\<rparr>"

definition parse_style :: "host \<Rightarrow> string \<Rightarrow> xml \<Rightarrow> error + element_style" where
  "parse_style h ns elem =
     (case find_child2 ns ''textElement'' elem of
        None \<Rightarrow> Inr no_style
      | Some text_elem \<Rightarrow>
          (let style = no_style
                 \<lparr>textAlignment := Some (dict_get (xml_attrib text_elem) ''textAlignment'' ''Left''),
                  verticalAlignment :=
                    Some (dict_get (xml_attrib text_elem) ''verticalAlignment'' ''Top'')\<rparr>
           in case find_child2 ns ''font'' text_elem of
                None \<Rightarrow> Inr style
              | Some font_elem \<Rightarrow>
                  bind_r (int_attr h font_elem ''size'' 10)
                    (\<lambda>size. Inr (style
                       \<lparr>fontSize := Some size,
                        fontName := Some (dict_get (xml_attrib font_elem) ''fontName'' ''SansSerif''),
                        isBold := Some (flag_attr font_elem ''isBold''),
                        isItalic := Some (flag_attr font_elem ''isItalic''),
                        isUnderline := Some (flag_attr font_elem ''isUnderline'')\<rparr>))))"

text \<open>\<^verbatim>\<open>_parse_element\<close>: no element without a \<^verbatim>\<open>reportElement\<close> child.\<close>

definition parse_element :: "host \<Rightarrow> string \<Rightarrow> xml \<Rightarrow> string \<Rightarrow> error + report_element option" where
  "parse_element h ns elem etype =
     (case find_child2 ns ''reportElement'' elem of
        None \<Rightarrow> Inr None
      | Some report_elem \<Rightarrow>
          bind_r (int_attr h report_elem ''x'' 0)
            (\<lambda>x. bind_r (int_attr h report_elem ''y'' 0)
              (\<lambda>y. bind_r (int_attr h report_elem ''width'' 0)
                (\<lambda>w. bind_r (int_attr h report_elem ''height'' 0)
                  (\<lambda>ht. bind_r (parse_style h ns elem)
                    (\<lambda>st. Inr (Some \<lparr>el_x = x, el_y = y, el_width = w, el_height = ht,
                                      element_type = etype, el_content = None,
                                      el_expression = None, el_style = st\<rparr>)))))))"

text \<open>\<^verbatim>\<open>_parse_band_elements\<close>: the static texts of the band first, then its text fields.\<close>

definition parse_static_text :: "host \<Rightarrow> string \<Rightarrow> xml \<Rightarrow> error + report_element list" where
  "parse_static_text h ns static_elem =
     bind_r (parse_element h ns static_elem ''staticText'')
       (\<lambda>eo. case eo of
                None \<Rightarrow> Inr []
              | Some element \<Rightarrow>
                  (case stripped_text (find_child2 ns ''text'' static_elem) of
                     None \<Rightarrow> Inr [element]
                   | Some t \<Rightarrow> Inr [element\<lparr>el_content := Some t\<rparr>]))"

definition parse_text_field :: "host \<Rightarrow> string \<Rightarrow> xml \<Rightarrow> error + report_element list" where
  "parse_text_field h ns field_elem =
     bind_r (parse_element h ns field_elem ''textField'')
       (\<lambda>eo. case eo of
                None \<Rightarrow> Inr []
              | Some element \<Rightarrow>
                  (case stripped_text (find_child2 ns ''textFieldExpression'' field_elem) of
                     None \<Rightarrow> Inr [element]
                   | Some t \<Rightarrow> Inr [element\<lparr>el_expression := Some t\<rparr>]))"

definition parse_band_elements :: "host \<Rightarrow> string \<Rightarrow> xml \<Rightarrow> error + report_element list" where
  "parse_band_elements h ns band_elem =
     bind_r (sequence_r (map (parse_static_text h ns) (findall_desc2 ns ''staticText'' band_elem)))
       (\<lambda>statics.
          bind_r (sequence_r (map (parse_text_field h ns) (findall_desc2 ns ''textField'' band_elem)))
            (\<lambda>fields. Inr (concat statics @ concat fields)))"

text \<open>\<^verbatim>\<open>_parse_bands\<close>: the loop over the eight band types of the parser; a band that is
  found is stored under its band type.\<close>

definition band_types :: "string list" where
  "band_types = [''title'', ''pageHeader'', ''columnHeader'', ''detail'',
     ''columnFooter'', ''pageFooter'', ''lastPageFooter'', ''summary'']"

definition parse_band_step ::
  "host \<Rightarrow> string \<Rightarrow> xml \<Rightarrow> error + band dict \<Rightarrow> string \<Rightarrow> error + band dict" where
  "parse_band_step h ns root_elem acc band_type =
     bind_r acc
       (\<lambda>bands. case find_desc_child2 ns band_type ''band'' root_elem of
                   None \<Rightarrow> Inr bands
                 | Some band_elem \<Rightarrow>
                     bind_r (int_attr h band_elem ''height'' 0)
                       (\<lambda>height. bind_r (parse_band_elements h ns band_elem)
                          (\<lambda>elements. Inr (AList.update band_type
                             \<lparr>band_name = band_type, band_height = height,
                              band_elements = elements\<rparr> bands))))"

definition parse_bands :: "host \<Rightarrow> string \<Rightarrow> xml \<Rightarrow> error + band dict" where
  "parse_bands h ns root_elem = foldl (parse_band_step h ns root_elem) (Inr []) band_types"

text \<open>\<^verbatim>\<open>_parse_parameters\<close>\<close>

definition parse_parameter_step :: "string \<Rightarrow> param_spec dict \<Rightarrow> xml \<Rightarrow> param_spec dict" where
  "parse_parameter_step ns parameters param_elem =
     (let name = map_of (xml_attrib param_elem) ''name''
      in if truthy name
         then AList.update (or_empty name)
                \<lparr>param_class = dict_get (xml_attrib param_elem) ''class'' ''java.lang.String'',
                 param_default =
                   stripped_text (find_child2 ns ''defaultValueExpression'' param_elem)\<rparr>
                parameters
         else parameters)"

definition parse_parameters :: "string \<Rightarrow> xml \<Rightarrow> param_spec dict" where
  "parse_parameters ns root_elem =
     foldl (parse_parameter_step ns) [] (findall_desc2 ns ''parameter'' root_elem)"

text \<open>\<^verbatim>\<open>parse\<close>, from the root element on. The namespace of the parser is the one of the
  root tag when that tag is qualified, and the JasperReports namespace otherwise.\<close>

definition default_namespace :: string where
  "default_namespace = ''http://jasperreports.sourceforge.net/jasperreports''"

definition namespace_of :: "xml \<Rightarrow> error + string" where
  "namespace_of root_elem =
     (let t = xml_tag root_elem
      in if prefix ''{'' t
         then (if CHR ''}'' \<in> set t then Inr (takeWhile (\<lambda>c. c \<noteq> CHR ''}'') (drop 1 t))
               else Inl JRXMLParseError)
         else Inr default_namespace)"

definition parse :: "host \<Rightarrow> xml \<Rightarrow> error + report_definition" where
  "parse h root_elem =
     bind_r (namespace_of root_elem) (\<lambda>ns.
     bind_r (int_attr h root_elem ''pageWidth'' 595) (\<lambda>pw.
     bind_r (int_attr h root_elem ''pageHeight'' 842) (\<lambda>ph.
     bind_r (int_attr h root_elem ''columnWidth'' 555) (\<lambda>cw.
     bind_r (int_attr h root_elem ''leftMargin'' 20) (\<lambda>lm.
     bind_r (int_attr h root_elem ''rightMargin'' 20) (\<lambda>rm.
     bind_r (int_attr h root_elem ''topMargin'' 20) (\<lambda>tm.
     bind_r (int_attr h root_elem ''bottomMargin'' 20) (\<lambda>bm.
     bind_r (parse_groups h ns root_elem) (\<lambda>groups.
     bind_r (parse_bands h ns root_elem) (\<lambda>bands.
       Inr \<lparr>rd_name = dict_get (xml_attrib root_elem) ''name'' ''Report'',
            page_width = pw, page_height = ph, column_width = cw,
            left_margin = lm, right_margin = rm, top_margin = tm, bottom_margin = bm,
            rd_query = parse_query ns root_elem,
            rd_fields = parse_fields ns root_elem,
            rd_variables = parse_variables ns root_elem,
            rd_groups = groups,
            rd_bands = bands,
            rd_parameters = parse_parameters ns root_elem\<rparr>))))))))))"

section \<open>The HTML renderer (\<^verbatim>\<open>renderers.py\<close>, \<^verbatim>\<open>HTMLRenderer\<close>)\<close>

text \<open>\<^verbatim>\<open>sep.join(parts)\<close>\<close>

fun join :: "string \<Rightarrow> string list \<Rightarrow> string" where
  "join sep [] = []"
| "join sep [p] = p"
| "join sep (p # q # ps) = p @ sep @ join sep (q # ps)"

text \<open>\<^verbatim>\<open>_generate_css\<close>: the style sheet, with the page width and the four margins.\<close>

definition generate_css :: "report_definition \<Rightarrow> string" where
  "generate_css rd = join [nl]
       ['''',
        ''        body {'',
        ''            font-family: 'Times New Roman', serif;'',
        ''            margin: 0;'',
        ''            padding: 0;'',
        ''            background-color: white;'',
        ''        }'',
        ''        '',
        ''        .report-container {'',
        ''            max-width: '' @ str_int (page_width rd) @ ''px;'',
        ''            margin: 0 auto;'',
        ''            background-color: white;'',
        ''            padding: '' @ str_int (top_margin rd) @ ''px '' @ str_int (right_margin rd) @ ''px '' @ str_int (bottom_margin rd) @ ''px '' @ str_int (left_margin rd) @ ''px;'',
        ''        }'',
        ''        '',
        ''        .band {'',
        ''            width: 100%;'',
        ''            position: relative;'',
        ''        }'',
        ''        '',
        ''        .element {'',
        ''            position: absolute;'',
        ''            overflow: hidden;'',
        ''        }'',
        ''        '',
        ''        .static-text {'',
        ''            font-weight: normal;'',
        ''        }'',
        ''        '',
        ''        .text-field {'',
        ''            font-weight: normal;'',
        ''        }'',
        ''        '',
        ''        .bold { font-weight: bold; }'',
        ''        .italic { font-style: italic; }'',
        ''        .underline { text-decoration: underline; }'',
        ''        '',
        ''        .align-left { text-align: left; }'',
        ''        .align-center { text-align: center; }'',
        ''        .align-right { text-align: right; }'',
        ''        .align-justify { text-align: justify; }'',
        ''        '',
        ''        table {'',
        ''            width: 100%;'',
        ''            border-collapse: collapse;'',
        ''        }'',
        ''        '',
        ''        th, td {'',
        ''            border: 1px solid black;'',
        ''            padding: 4px;'',
        ''            text-align: left;'',
        ''            vertical-align: middle;'',
        ''        }'',
        ''        '',
        ''        th {'',
        ''            background-color: #d3d3d3;'',
        ''            font-weight: bold;'',
        ''        }'',
        ''        '',
        ''        @media print {'',
        ''            body { background-color: white; padding: 0; }'',
        ''            .report-container { box-shadow: none; }'',
        ''        }'',
        ''        '']"

text \<open>The opening tag of a band: \<^verbatim>\<open><div class="band ..." style="height: Hpx;">\<close>.\<close>

definition band_open :: "string \<Rightarrow> band \<Rightarrow> string" where
  \<open>band_open cls b =
     ''<div class="'' @ cls @ ''" style="height: '' @ str_int (band_height b) @ ''px;">''\<close>

text \<open>
  \<^verbatim>\<open>_render_element\<close>. Without an evaluator one is made from the row, unless the row is
  empty; a static text shows its content; a text field shows the value of its expression,
  or the expression itself when there is no evaluator. A value whose expression mentions
  \<^verbatim>\<open>amount\<close> or \<^verbatim>\<open>salary\<close> is shown as currency when \<^verbatim>\<open>float\<close> reads it.
\<close>

definition element_content ::
  "host \<Rightarrow> row \<Rightarrow> row \<Rightarrow> report_element \<Rightarrow> row \<Rightarrow> evaluator option \<Rightarrow> string" where
  "element_content h variables parameters element row_data evaluator =
     (let ev = (if evaluator = None \<and> row_data \<noteq> []
                then Some (ExpressionEvaluator row_data variables parameters) else evaluator)
      in if element_type element = ''staticText'' \<and> truthy (el_content element)
         then or_empty (el_content element)
         else if element_type element = ''textField'' \<and> truthy (el_expression element)
         then (case ev of
                 Some e \<Rightarrow> evaluate h e (or_empty (el_expression element))
               | None \<Rightarrow> or_empty (el_expression element))
         else [])"

definition style_parts :: "report_element \<Rightarrow> string list" where
  "style_parts element =
     [''left: '' @ str_int (el_x element) @ ''px'',
      ''top: '' @ str_int (el_y element) @ ''px'',
      ''width: '' @ str_int (el_width element) @ ''px'',
      ''height: '' @ str_int (el_height element) @ ''px'',
      ''border: 1px solid black'',
      ''box-sizing: border-box'',
      ''padding: 2px'']
     @ (case fontSize (el_style element) of
          Some n \<Rightarrow> [''font-size: '' @ str_int n @ ''px''] | None \<Rightarrow> [])
     @ (case fontName (el_style element) of
          Some f \<Rightarrow> [''font-family: '' @ f] | None \<Rightarrow> [])
     @ (if isBold (el_style element) = Some True then [''font-weight: bold''] else [])
     @ (if isItalic (el_style element) = Some True then [''font-style: italic''] else [])
     @ (if isUnderline (el_style element) = Some True then [''text-decoration: underline''] else [])
     @ (let alignment = py_lower (case textAlignment (el_style element) of
                                    Some a \<Rightarrow> a | None \<Rightarrow> ''Left'')
        in if alignment = ''center'' then [''text-align: center'']
           else if alignment = ''right'' then [''text-align: right'']
           else if alignment = ''justify'' then [''text-align: justify'']
           else [])"

definition format_currency :: "host \<Rightarrow> report_element \<Rightarrow> string \<Rightarrow> string" where
  "format_currency h element content =
     (let e = py_lower (or_empty (el_expression element))
      in if (contains ''amount'' e \<or> contains ''salary'' e)
            \<and> content \<noteq> [] \<and> Some content \<noteq> el_expression element
         then (case currency h content of Some c \<Rightarrow> c | None \<Rightarrow> content)
         else content)"

definition render_element ::
  "host \<Rightarrow> row \<Rightarrow> row \<Rightarrow> report_element \<Rightarrow> row \<Rightarrow> evaluator option \<Rightarrow> string" where
  \<open>render_element h variables parameters element row_data evaluator =
     ''<div class="element '' @ element_type element @ ''" style="''
       @ join ''; '' (style_parts element) @ ''">''
       @ format_currency h element
           (element_content h variables parameters element row_data evaluator)
       @ ''</div>''\<close>

text \<open>A band as the renderer writes it: the opening tag, the elements in order, the closing
  tag.\<close>

definition render_band ::
  "host \<Rightarrow> row \<Rightarrow> row \<Rightarrow> string \<Rightarrow> band \<Rightarrow> row \<Rightarrow> evaluator option \<Rightarrow> string" where
  "render_band h variables parameters cls b row_data evaluator =
     band_open cls b
       @ concat (map (\<lambda>element. render_element h variables parameters element row_data evaluator)
           (band_elements b))
       @ ''</div>''"

text \<open>\<^verbatim>\<open>_render_title\<close>, \<^verbatim>\<open>_render_page_header\<close> and \<^verbatim>\<open>_render_column_header\<close>: the
  elements are rendered with the empty row and no evaluator.\<close>

definition render_title :: "host \<Rightarrow> report_definition \<Rightarrow> row \<Rightarrow> row \<Rightarrow> string" where
  "render_title h rd variables parameters =
     (case map_of (rd_bands rd) ''title'' of
        None \<Rightarrow> []
      | Some title_band \<Rightarrow> render_band h variables parameters ''band title-band'' title_band [] None)"

definition render_page_header :: "host \<Rightarrow> report_definition \<Rightarrow> row \<Rightarrow> row \<Rightarrow> string" where
  "render_page_header h rd variables parameters =
     (case map_of (rd_bands rd) ''pageHeader'' of
        None \<Rightarrow> []
      | Some header_band \<Rightarrow> render_band h variables parameters ''band page-header'' header_band [] None)"

definition render_column_header :: "host \<Rightarrow> report_definition \<Rightarrow> row \<Rightarrow> row \<Rightarrow> string" where
  "render_column_header h rd variables parameters =
     (case map_of (rd_bands rd) ''columnHeader'' of
        None \<Rightarrow> []
      | Some header_band \<Rightarrow> render_band h variables parameters ''band'' header_band [] None)"

text \<open>\<^verbatim>\<open>_render_detail_row\<close>: the evaluator of the row, with the variables as they are at
  this point.\<close>

definition render_detail_row ::
  "host \<Rightarrow> report_definition \<Rightarrow> row \<Rightarrow> row \<Rightarrow> row \<Rightarrow> string" where
  "render_detail_row h rd variables parameters row_data =
     (case map_of (rd_bands rd) ''detail'' of
        None \<Rightarrow> []
      | Some detail_band \<Rightarrow>
          render_band h variables parameters ''band'' detail_band row_data
            (Some (ExpressionEvaluator row_data variables parameters)))"

text \<open>
  The output of the functions that write more than one band is kept as a list of pieces,
  each with the key of the band it renders (the empty key for the text between bands); the
  HTML text is the concatenation of the pieces, as the code builds it with \<^verbatim>\<open>html +=\<close>.
\<close>

type_synonym piece = "string \<times> string"

definition html_of :: "piece list \<Rightarrow> string" where
  "html_of ps = concat (map snd ps)"

text \<open>\<^verbatim>\<open>_render_simple_content\<close>\<close>

definition render_simple_content ::
  "host \<Rightarrow> report_definition \<Rightarrow> row list \<Rightarrow> row \<Rightarrow> row \<Rightarrow> piece list" where
  "render_simple_content h rd data variables parameters =
     (if dict_has (rd_bands rd) ''columnHeader''
      then [(''columnHeader'', render_column_header h rd variables parameters)] else [])
     @ map (\<lambda>r. (''detail'', render_detail_row h rd variables parameters r)) data"

text \<open>
  The totals of a group of rows, in \<^verbatim>\<open>_render_grouped_content\<close> and again in
  \<^verbatim>\<open>_render_summary\<close>: every variable whose calculation is \<^verbatim>\<open>Sum\<close> and whose expression
  holds a field reference is set to the sum of that field over the rows. The reset type of
  the variable is not read.
\<close>

definition set_total :: "host \<Rightarrow> row list \<Rightarrow> row \<Rightarrow> variable \<Rightarrow> row" where
  "set_total h rows variables v =
     (if var_calculation v = ''Sum''
      then (case search_ref (CHR ''F'') (or_empty (var_expression v)) of
              Some var_field \<Rightarrow>
                AList.update (var_name v) (PyFloat (calculate_sum h var_field rows)) variables
            | None \<Rightarrow> variables)
      else variables)"

definition set_totals :: "host \<Rightarrow> report_definition \<Rightarrow> row list \<Rightarrow> row \<Rightarrow> row" where
  "set_totals h rd rows variables = foldl (set_total h rows) variables (rd_variables rd)"

text \<open>
  One round of the loop of \<^verbatim>\<open>_render_grouped_content\<close>, for the group \<open>(group_value,
  group_rows)\<close>: the group header (if the template has a band under that key), the detail
  rows, the totals of the group, the group footer (if the template has a band under that
  key). It returns the pieces and the variable map after the round.
\<close>

definition render_group ::
  "host \<Rightarrow> report_definition \<Rightarrow> row \<Rightarrow> string \<Rightarrow> row \<Rightarrow> (pyval \<times> row list) \<Rightarrow> piece list \<times> row" where
  "render_group h rd parameters group_field variables g =
     (let group_value = fst g;
          group_rows = snd g;
          header =
            (case map_of (rd_bands rd) ''groupHeader'' of
               None \<Rightarrow> []
             | Some group_header_band \<Rightarrow>
                 [(''groupHeader'',
                   render_band h variables parameters ''band'' group_header_band
                     [(group_field, group_value)]
                     (Some (ExpressionEvaluator [(group_field, group_value)] variables parameters)))]);
          rows = map (\<lambda>r. (''detail'', render_detail_row h rd variables parameters r)) group_rows;
          variables' = set_totals h rd group_rows variables;
          footer =
            (case map_of (rd_bands rd) ''groupFooter'' of
               None \<Rightarrow> []
             | Some group_footer_band \<Rightarrow>
                 [(''groupFooter'',
                   render_band h variables' parameters ''band'' group_footer_band []
                     (Some (ExpressionEvaluator [] variables' parameters)))])
      in (header @ rows @ footer, variables'))"

fun render_groups ::
  "host \<Rightarrow> report_definition \<Rightarrow> row \<Rightarrow> string \<Rightarrow> row \<Rightarrow> (pyval \<times> row list) list
     \<Rightarrow> piece list \<times> row" where
  "render_groups h rd parameters group_field variables [] = ([], variables)"
| "render_groups h rd parameters group_field variables (g # gs) =
     (let (ps, variables') = render_group h rd parameters group_field variables g;
          (qs, variables'') = render_groups h rd parameters group_field variables' gs
      in (ps @ qs, variables''))"

text \<open>\<^verbatim>\<open>_render_grouped_content\<close>: only the first group of the template is used; without a
  field reference in its expression the content is rendered without grouping.\<close>

definition render_grouped_content ::
  "host \<Rightarrow> report_definition \<Rightarrow> row list \<Rightarrow> row \<Rightarrow> row \<Rightarrow> piece list \<times> row" where
  "render_grouped_content h rd data variables parameters =
     (case search_ref (CHR ''F'') (group_expression (hd (rd_groups rd))) of
        None \<Rightarrow> (render_simple_content h rd data variables parameters, variables)
      | Some group_field \<Rightarrow>
          render_groups h rd parameters group_field variables (group_by group_field data))"

text \<open>\<^verbatim>\<open>_render_content\<close>; \<^verbatim>\<open>_render_grouped_content\<close> is only called with a group.\<close>

definition render_content ::
  "host \<Rightarrow> report_definition \<Rightarrow> row list \<Rightarrow> row \<Rightarrow> row \<Rightarrow> piece list \<times> row" where
  \<open>render_content h rd data variables parameters =
     (if data = [] then ([('''', ''<div class="no-data">No data available</div>'')], variables)
      else if rd_groups rd \<noteq> [] then render_grouped_content h rd data variables parameters
      else (render_simple_content h rd data variables parameters, variables))\<close>

text \<open>\<^verbatim>\<open>_render_page_footer\<close>: the evaluator sees the page variables in place of the
  variables of the renderer; the page number and the page count are both 1.\<close>

definition page_vars :: row where
  "page_vars = [(''PAGE_NUMBER'', PyInt 1), (''PAGE_COUNT'', PyInt 1)]"

definition render_page_footer :: "host \<Rightarrow> report_definition \<Rightarrow> row \<Rightarrow> row \<Rightarrow> string" where
  "render_page_footer h rd variables parameters =
     (case map_of (rd_bands rd) ''pageFooter'' of
        None \<Rightarrow> []
      | Some footer_band \<Rightarrow>
          render_band h variables parameters ''band page-footer'' footer_band []
            (Some (ExpressionEvaluator [] page_vars parameters)))"

text \<open>\<^verbatim>\<open>_render_summary\<close>: the totals over all rows, then the band. Without a summary band
  the variables stay as they are.\<close>

definition render_summary ::
  "host \<Rightarrow> report_definition \<Rightarrow> row list \<Rightarrow> row \<Rightarrow> row \<Rightarrow> string \<times> row" where
  "render_summary h rd data variables parameters =
     (case map_of (rd_bands rd) ''summary'' of
        None \<Rightarrow> ([], variables)
      | Some summary_band \<Rightarrow>
          (let variables' = set_totals h rd data variables
           in (render_band h variables' parameters ''band summary-band'' summary_band []
                 (Some (ExpressionEvaluator [] variables' parameters)),
               variables')))"

text \<open>
  \<^verbatim>\<open>_generate_html\<close>: the document. The renderer is new for every generation, so its
  variable map starts empty; the five calls of the template text run from left to right.
\<close>

definition generate_html_pieces ::
  "host \<Rightarrow> report_definition \<Rightarrow> row list \<Rightarrow> row \<Rightarrow> piece list" where
  \<open>generate_html_pieces h rd data parameters =
     (let variables0 = [];
          (content, variables1) = render_content h rd data variables0 parameters;
          (summary, variables2) = render_summary h rd data variables1 parameters
      in [('''', join [nl]
                  [''<!DOCTYPE html>'',
                   ''<html>'',
                   ''<head>'',
                   ''    <meta charset="UTF-8">'',
                   ''    <title>'' @ rd_name rd @ ''</title>'',
                   ''    <style>'' @ generate_css rd @ ''</style>'',
                   ''</head>'',
                   ''<body>'',
                   ''    <div class="report-container">'',
                   ''        '']),
          (''title'', render_title h rd variables0 parameters),
          ('''', nl # ''        ''),
          (''pageHeader'', render_page_header h rd variables0 parameters),
          ('''', nl # ''        '')]
         @ content
         @ [('''', nl # ''        ''),
            (''pageFooter'', render_page_footer h rd variables1 parameters),
            ('''', nl # ''        ''),
            (''summary'', summary),
            ('''', join [nl] ['''', ''    </div>'', ''</body>'', ''</html>''])])\<close>

definition generate_html_text :: "host \<Rightarrow> report_definition \<Rightarrow> row list \<Rightarrow> row \<Rightarrow> string" where
  "generate_html_text h rd data parameters = html_of (generate_html_pieces h rd data parameters)"


section \<open>The PDF renderer (\<^verbatim>\<open>renderers.py\<close>, \<^verbatim>\<open>PDFRenderer\<close>)\<close>

text \<open>
  The renderer builds a list of ReportLab flowables, the story, and hands it to ReportLab.
  The model is the story: a paragraph with its text and style, or a table of cell texts.
\<close>

record para_style =
  ps_name :: string
  ps_fontSize :: int
  ps_alignment :: int
  ps_fontName :: string

datatype flowable = Paragraph string para_style | Table "string list list"

text \<open>\<^verbatim>\<open>name.replace('_', ' ').title()\<close>\<close>

definition display_name :: "host \<Rightarrow> string \<Rightarrow> string" where
  "display_name h name = title_case h (str_replace ''_'' '' '' name)"

text \<open>\<^verbatim>\<open>float(value)\<close> for a value; \<open>None\<close> when it raises.\<close>

fun py_float :: "host \<Rightarrow> pyval \<Rightarrow> rat option" where
  "py_float h PyNone = None"
| "py_float h (PyInt i) = Some (of_int i)"
| "py_float h (PyFloat x) = Some x"
| "py_float h (PyStr s) = float_parse h s"

text \<open>A cell of a data row, in \<^verbatim>\<open>_prepare_table_data\<close> and \<^verbatim>\<open>_prepare_group_table_data\<close>.\<close>

definition pdf_cell :: "host \<Rightarrow> row \<Rightarrow> field_def \<Rightarrow> string" where
  "pdf_cell h r f =
     (let v = dict_get r (field_name f) (PyStr [])
      in if contains ''amount'' (py_lower (field_name f)) \<or> contains ''salary'' (py_lower (field_name f))
         then (case (if py_bool v then py_float h v else Some 0) of
                 Some amount_val \<Rightarrow> CHR ''$'' # format_2f h amount_val
               | None \<Rightarrow> py_str h v)
         else py_str h v)"

definition pdf_data_rows :: "host \<Rightarrow> report_definition \<Rightarrow> row list \<Rightarrow> string list list" where
  "pdf_data_rows h rd rows = map (\<lambda>r. map (pdf_cell h r) (rd_fields rd)) rows"

definition field_header_row :: "host \<Rightarrow> report_definition \<Rightarrow> string list" where
  "field_header_row h rd = map (\<lambda>f. display_name h (field_name f)) (rd_fields rd)"

text \<open>\<^verbatim>\<open>_prepare_table_data\<close>: the header row is made of the static texts of the column
  header band, and of the field names when there is no such band or it has no static text.\<close>

definition prepare_table_data :: "host \<Rightarrow> report_definition \<Rightarrow> row list \<Rightarrow> string list list" where
  "prepare_table_data h rd data =
     (if data = [] \<or> rd_fields rd = [] then []
      else
        (let header_row =
               (case map_of (rd_bands rd) ''columnHeader'' of
                  None \<Rightarrow> field_header_row h rd
                | Some column_header_band \<Rightarrow>
                    (let texts = concat (map (\<lambda>element.
                             if element_type element = ''staticText'' \<and> truthy (el_content element)
                             then [or_empty (el_content element)] else [])
                           (band_elements column_header_band))
                     in if texts = [] then field_header_row h rd else texts))
         in header_row # pdf_data_rows h rd data))"

text \<open>\<^verbatim>\<open>_prepare_group_table_data\<close>\<close>

definition prepare_group_table_data ::
  "host \<Rightarrow> report_definition \<Rightarrow> row list \<Rightarrow> string list list" where
  "prepare_group_table_data h rd group_rows =
     (if group_rows = [] \<or> rd_fields rd = [] then []
      else field_header_row h rd # pdf_data_rows h rd group_rows)"

text \<open>\<^verbatim>\<open>_render_pdf_title\<close>: one paragraph for every static text of the title band.\<close>

definition render_pdf_title :: "band \<Rightarrow> flowable list" where
  "render_pdf_title title_band =
     concat (map (\<lambda>element.
        if element_type element = ''staticText'' \<and> truthy (el_content element)
        then [Paragraph (or_empty (el_content element))
                \<lparr>ps_name = ''Title'',
                 ps_fontSize = (case fontSize (el_style element) of Some n \<Rightarrow> n | None \<Rightarrow> 18),
                 ps_alignment =
                   (if py_lower (or_empty (textAlignment (el_style element))) = ''center''
                    then 1 else 0),
                 ps_fontName =
                   (if isBold (el_style element) = Some True
                    then ''Helvetica-Bold'' else ''Helvetica'')\<rparr>]
        else [])
       (band_elements title_band))"

text \<open>\<^verbatim>\<open>_render_pdf_page_header\<close> and \<^verbatim>\<open>_render_pdf_page_footer\<close> return the empty list.\<close>

definition render_pdf_page_header :: "flowable list" where
  "render_pdf_page_header = []"

definition render_pdf_page_footer :: "flowable list" where
  "render_pdf_page_footer = []"

text \<open>\<^verbatim>\<open>_render_pdf_simple_content\<close>, \<^verbatim>\<open>_render_pdf_grouped_content\<close> and
  \<^verbatim>\<open>_render_pdf_content\<close>. As for HTML, the pieces carry the key of the band they stand
  for: the heading of a group is its group header, a table is the detail content.\<close>

type_synonym pdf_piece = "string \<times> flowable list"

definition table_piece :: "string list list \<Rightarrow> pdf_piece list" where
  "table_piece table_data = (if table_data = [] then [] else [(''detail'', [Table table_data])])"

definition render_pdf_simple_content ::
  "host \<Rightarrow> report_definition \<Rightarrow> row list \<Rightarrow> pdf_piece list" where
  "render_pdf_simple_content h rd data = table_piece (prepare_table_data h rd data)"

definition render_pdf_group ::
  "host \<Rightarrow> report_definition \<Rightarrow> string \<Rightarrow> (pyval \<times> row list) \<Rightarrow> pdf_piece list" where
  "render_pdf_group h rd group_field g =
     (''groupHeader'',
      [Paragraph (display_name h group_field @ '': '' @ py_str h (fst g))
         \<lparr>ps_name = ''GroupHeader'', ps_fontSize = 12, ps_alignment = 0,
          ps_fontName = ''Helvetica-Bold''\<rparr>])
     # table_piece (prepare_group_table_data h rd (snd g))"

definition render_pdf_grouped_content ::
  "host \<Rightarrow> report_definition \<Rightarrow> row list \<Rightarrow> pdf_piece list" where
  "render_pdf_grouped_content h rd data =
     (case search_ref (CHR ''F'') (group_expression (hd (rd_groups rd))) of
        None \<Rightarrow> render_pdf_simple_content h rd data
      | Some group_field \<Rightarrow>
          concat (map (render_pdf_group h rd group_field) (group_by group_field data)))"

definition render_pdf_content :: "host \<Rightarrow> report_definition \<Rightarrow> row list \<Rightarrow> pdf_piece list" where
  "render_pdf_content h rd data =
     (if rd_groups rd \<noteq> [] then render_pdf_grouped_content h rd data
      else render_pdf_simple_content h rd data)"

text \<open>\<^verbatim>\<open>_render_pdf_summary\<close>: one paragraph with the total over all rows for every
  variable whose calculation is \<^verbatim>\<open>Sum\<close>; the elements of the summary band are not read.\<close>

definition render_pdf_summary :: "host \<Rightarrow> report_definition \<Rightarrow> row list \<Rightarrow> flowable list" where
  "render_pdf_summary h rd data =
     concat (map (\<lambda>v.
        if var_calculation v = ''Sum''
        then (case search_ref (CHR ''F'') (or_empty (var_expression v)) of
                Some field \<Rightarrow>
                  [Paragraph (''Total '' @ display_name h field @ '': $''
                              @ format_2f h (calculate_sum h field data))
                     \<lparr>ps_name = ''Summary'', ps_fontSize = 12, ps_alignment = 2,
                      ps_fontName = ''Helvetica-Bold''\<rparr>]
              | None \<Rightarrow> [])
        else [])
       (rd_variables rd))"

text \<open>
  \<^verbatim>\<open>PDFRenderer.render\<close>, up to the call of ReportLab: the story in the order in which the
  code extends it. The summary is added before the page footer.
\<close>

definition pdf_story_pieces :: "host \<Rightarrow> report_definition \<Rightarrow> row list \<Rightarrow> pdf_piece list" where
  "pdf_story_pieces h rd data =
     (case map_of (rd_bands rd) ''title'' of
        None \<Rightarrow> [] | Some title_band \<Rightarrow> [(''title'', render_pdf_title title_band)])
     @ (if dict_has (rd_bands rd) ''pageHeader''
        then [(''pageHeader'', render_pdf_page_header)] else [])
     @ (if data \<noteq> [] then render_pdf_content h rd data else [])
     @ (if dict_has (rd_bands rd) ''summary''
        then [(''summary'', render_pdf_summary h rd data)] else [])
     @ (if dict_has (rd_bands rd) ''pageFooter''
        then [(''pageFooter'', render_pdf_page_footer)] else [])"

definition pdf_story :: "host \<Rightarrow> report_definition \<Rightarrow> row list \<Rightarrow> flowable list" where
  "pdf_story h rd data = concat (map snd (pdf_story_pieces h rd data))"

section \<open>The report facade (\<^verbatim>\<open>core.py\<close>, \<^verbatim>\<open>JasperReport\<close>)\<close>

text \<open>
  The data source as the facade uses it: its kind, the answer of \<^verbatim>\<open>execute_query\<close> to a
  query text and a parameter map (rows, or an exception), and the answer of
  \<^verbatim>\<open>test_connection\<close>.
\<close>

record database_engine =
  db_type :: string
  run_query :: "string \<Rightarrow> row \<Rightarrow> error + row list"
  connection_ok :: bool

record jasper_report =
  report_def :: report_definition
  jr_data :: "row list"
  jr_parameters :: row
  jr_engine :: "database_engine option"

text \<open>The constructor from a parsed document, \<^verbatim>\<open>set_data\<close> and \<^verbatim>\<open>set_parameters\<close>.\<close>

definition new_report :: "host \<Rightarrow> xml \<Rightarrow> error + jasper_report" where
  "new_report h root_elem =
     bind_r (parse h root_elem)
       (\<lambda>rd. Inr \<lparr>report_def = rd, jr_data = [], jr_parameters = [], jr_engine = None\<rparr>)"

definition set_data :: "row list \<Rightarrow> jasper_report \<Rightarrow> jasper_report" where
  "set_data data jr = jr\<lparr>jr_data := data\<rparr>"

definition set_parameters :: "row \<Rightarrow> jasper_report \<Rightarrow> jasper_report" where
  "set_parameters parameters jr = jr\<lparr>jr_parameters := parameters\<rparr>"

text \<open>\<^verbatim>\<open>execute_query\<close>\<close>

definition execute_query :: "jasper_report \<Rightarrow> error + jasper_report" where
  "execute_query jr =
     (case jr_engine jr of
        None \<Rightarrow> Inl DatabaseError
      | Some db \<Rightarrow>
          (if \<not> truthy (rd_query (report_def jr)) then Inl JasperError
           else (case run_query db (or_empty (rd_query (report_def jr))) (jr_parameters jr) of
                   Inl e \<Rightarrow> Inl DatabaseError
                 | Inr rows \<Rightarrow> Inr (jr\<lparr>jr_data := rows\<rparr>))))"

text \<open>\<^verbatim>\<open>generate_html\<close>: the query is run when no data is bound and the template has a
  query; the renderer is created for this call. The result is the document and the facade
  after the call.\<close>

definition generate_html :: "host \<Rightarrow> jasper_report \<Rightarrow> error + (string \<times> jasper_report)" where
  "generate_html h jr =
     bind_r (if jr_data jr = [] \<and> truthy (rd_query (report_def jr)) then execute_query jr else Inr jr)
       (\<lambda>jr'. Inr (generate_html_text h (report_def jr') (jr_data jr') (jr_parameters jr'), jr'))"






text \<open>
  \<^verbatim>\<open>preview_data\<close>. The query that is run is the query of the template, with a limit
  clause appended when its upper-case form does not hold \<^verbatim>\<open>LIMIT\<close>. Every exception of the
  guarded block is answered with the empty list.
\<close>

definition preview_query :: "database_engine \<Rightarrow> string \<Rightarrow> int \<Rightarrow> string" where
  "preview_query db query limit =
     (if \<not> contains ''LIMIT'' (py_upper query)
      then (if db_type db = ''sqlite'' then query @ '' LIMIT '' @ str_int limit
            else if db_type db = ''mysql'' then query @ '' LIMIT '' @ str_int limit
            else if db_type db = ''postgresql'' then query @ '' LIMIT '' @ str_int limit
            else query)
      else query)"

definition preview_data :: "jasper_report \<Rightarrow> int \<Rightarrow> error + row list" where
  "preview_data jr limit =
     (if jr_data jr = [] then
        (case jr_engine jr of
           None \<Rightarrow> Inr []
         | Some db \<Rightarrow>
             (if truthy (rd_query (report_def jr)) then
                (case bind_r (run_query db
                                (preview_query db (or_empty (rd_query (report_def jr))) limit)
                                (jr_parameters jr))
                        (\<lambda>preview. Inr (py_take limit preview)) of
                   Inl e \<Rightarrow> Inr []
                 | Inr rows \<Rightarrow> Inr rows)
              else Inr []))
      else Inr (py_take limit (jr_data jr)))"

section \<open>A host for the examples\<close>

text \<open>
  The closed examples below need a host. \<open>ex_host\<close> follows Python on the inputs that
  occur in them and no further:
  \<^item> \<^verbatim>\<open>eval\<close> answers a text that is exactly one lookup \<^verbatim>\<open>self.data.get('NAME', '')\<close> (or the
    same on \<^verbatim>\<open>variables\<close> or \<^verbatim>\<open>parameters\<close>) whose name is made of printable ASCII
    characters other than the quote and the backslash; on every other text it raises;
  \<^item> \<^verbatim>\<open>float\<close> and \<^verbatim>\<open>int\<close> read plain decimal numerals, with an optional sign;
  \<^item> \<^verbatim>\<open>str\<close> of a float and the format \<^verbatim>\<open>.2f\<close> are right on the numbers that need no
    rounding;
  \<^item> \<^verbatim>\<open>title\<close> is right on lower-case ASCII words separated by blanks.
\<close>

definition plain_char :: "char \<Rightarrow> bool" where
  "plain_char c = (let n = (of_char c :: nat) in 32 \<le> n \<and> n < 127 \<and> n \<noteq> 39 \<and> n \<noteq> 92)"

definition plain_name :: "string \<Rightarrow> bool" where
  "plain_name name = (name \<noteq> [] \<and> list_all plain_char name)"

text \<open>The name inside a lookup call on the given store, when the text is such a call.\<close>

definition lookup_name :: "string \<Rightarrow> string \<Rightarrow> string option" where
  "lookup_name store t =
     (let pre = ''self.'' @ store @ ''.get('' @ [sq];
          suf = [sq] @ '', '' @ [sq, sq] @ '')'';
          name = drop (length pre) (take (length t - length suf) t)
      in if t = pre @ name @ suf \<and> plain_name name then Some name else None)"

fun digit_val :: "char \<Rightarrow> nat option" where
  "digit_val c = (let n = (of_char c :: nat) in if 48 \<le> n \<and> n \<le> 57 then Some (n - 48) else None)"

fun digits_val :: "nat \<Rightarrow> string \<Rightarrow> nat option" where
  "digits_val acc [] = Some acc"
| "digits_val acc (c # cs) =
     (case digit_val c of None \<Rightarrow> None | Some d \<Rightarrow> digits_val (10 * acc + d) cs)"

definition ex_nat_parse :: "string \<Rightarrow> nat option" where
  "ex_nat_parse s = (if s = [] then None else digits_val 0 s)"

definition ex_int_parse :: "string \<Rightarrow> int option" where
  "ex_int_parse s =
     (let t = py_strip s
      in case t of
           [] \<Rightarrow> None
         | c # cs \<Rightarrow>
             if c = CHR ''-'' then map_option (\<lambda>n. - int n) (ex_nat_parse cs)
             else if c = CHR ''+'' then map_option int (ex_nat_parse cs)
             else map_option int (ex_nat_parse t))"

definition ex_unsigned_parse :: "string \<Rightarrow> rat option" where
  "ex_unsigned_parse t =
     (let ip = takeWhile (\<lambda>c. c \<noteq> CHR ''.'') t;
          rest = dropWhile (\<lambda>c. c \<noteq> CHR ''.'') t
      in case rest of
           [] \<Rightarrow> map_option of_nat (ex_nat_parse ip)
         | d # fp \<Rightarrow>
             (case (ex_nat_parse ip, ex_nat_parse fp) of
                (Some a, Some b) \<Rightarrow> Some (of_nat a + of_nat b / of_nat (10 ^ length fp))
              | _ \<Rightarrow> None))"

definition ex_float_parse :: "string \<Rightarrow> rat option" where
  "ex_float_parse s =
     (let t = py_strip s
      in case t of
           [] \<Rightarrow> None
         | c # cs \<Rightarrow>
             if c = CHR ''-'' then map_option uminus (ex_unsigned_parse cs)
             else if c = CHR ''+'' then ex_unsigned_parse cs
             else ex_unsigned_parse t)"

definition ex_format_2f :: "rat \<Rightarrow> string" where
  "ex_format_2f x =
     (let c = \<lfloor>\<bar>x\<bar> * 100 + 1 / 2\<rfloor>;
          cents = nat (c mod 100)
      in (if x < 0 \<and> c \<noteq> 0 then ''-'' else []) @ str_int (c div 100) @ ''.''
         @ [digit_char (cents div 10), digit_char (cents mod 10)])"

definition ex_float_str :: "rat \<Rightarrow> string" where
  "ex_float_str x =
     (let t = \<lfloor>\<bar>x\<bar> * 10\<rfloor>
      in (if x < 0 then ''-'' else []) @ str_int (t div 10) @ ''.'' @ [digit_char (nat (t mod 10))])"

definition ex_currency :: "string \<Rightarrow> string option" where
  "ex_currency s = map_option (\<lambda>x. CHR ''$'' # ex_format_2f x) (ex_float_parse s)"

fun ex_title :: "bool \<Rightarrow> string \<Rightarrow> string" where
  "ex_title up [] = []"
| "ex_title up (c # cs) =
     (if c = CHR '' '' then c # ex_title True cs
      else (if up then upper_char c else lower_char c) # ex_title False cs)"

definition ex_eval :: "(rat \<Rightarrow> string) \<Rightarrow> string \<Rightarrow> evaluator \<Rightarrow> string option" where
  "ex_eval fstr t self =
     (let show = (\<lambda>v. case v of PyNone \<Rightarrow> ''None'' | PyInt i \<Rightarrow> str_int i
                             | PyFloat x \<Rightarrow> fstr x | PyStr s \<Rightarrow> s)
      in case lookup_name ''data'' t of
           Some name \<Rightarrow> Some (show (dict_get (ev_data self) name (PyStr [])))
         | None \<Rightarrow>
             (case lookup_name ''variables'' t of
                Some name \<Rightarrow> Some (show (dict_get (ev_variables self) name (PyStr [])))
              | None \<Rightarrow>
                  (case lookup_name ''parameters'' t of
                     Some name \<Rightarrow> Some (show (dict_get (ev_parameters self) name (PyStr [])))
                   | None \<Rightarrow> None)))"

definition ex_host :: host where
  "ex_host = \<lparr>eval_str = ex_eval ex_float_str, float_parse = ex_float_parse,
     float_str = ex_float_str, format_2f = ex_format_2f, currency = ex_currency,
     int_parse = ex_int_parse, title_case = ex_title True\<rparr>"

text \<open>\<^verbatim>\<open>ReportDefinition(name='Report')\<close>: a template with the defaults of the dataclass, and
  an element with the geometry and the style left at zero and empty.\<close>

definition empty_report :: report_definition where
  "empty_report = \<lparr>rd_name = ''Report'', page_width = 595, page_height = 842,
     column_width = 555, left_margin = 20, right_margin = 20, top_margin = 20,
     bottom_margin = 20, rd_query = None, rd_fields = [], rd_variables = [], rd_groups = [],
     rd_bands = [], rd_parameters = []\<rparr>"

definition text_field :: "string \<Rightarrow> report_element" where
  "text_field e = \<lparr>el_x = 0, el_y = 0, el_width = 0, el_height = 0, element_type = ''textField'',
     el_content = None, el_expression = Some e, el_style = no_style\<rparr>"


definition band_of :: "string \<Rightarrow> report_element list \<Rightarrow> string \<times> band" where
  "band_of key elements = (key, \<lparr>band_name = key, band_height = 0, band_elements = elements\<rparr>)"

text \<open>A data source on which every query fails.\<close>

definition failing_db :: database_engine where
  "failing_db = \<lparr>db_type = ''sqlite'', run_query = (\<lambda>q ps. Inl DatabaseError),
     connection_ok = False\<rparr>"


definition report_element_xml :: xml where
  "report_element_xml =
     Element ''reportElement'' [(''x'', ''0''), (''y'', ''0''), (''width'', ''100''), (''height'', ''20'')]
       None []"

definition static_text_xml :: "string \<Rightarrow> xml" where
  "static_text_xml t =
     Element ''staticText'' [] None [report_element_xml, Element ''text'' [] (Some t) []]"

definition group_doc :: xml where
  "group_doc =
     Element ''jasperReport'' [(''name'', ''Grouped'')] None
       [Element ''group'' [(''name'', ''g'')] None
          [Element ''groupExpression'' [] (Some ''$F{g}'') [],
           Element ''groupHeader'' [] None
             [Element ''band'' [(''height'', ''20'')] None [static_text_xml ''Group'']],
           Element ''groupFooter'' [] None
             [Element ''band'' [(''height'', ''20'')] None [static_text_xml ''Total'']]],
        Element ''title'' [] None
          [Element ''band'' [(''height'', ''30'')] None [static_text_xml ''Report'']]]"

section \<open>Notions for the statements about the evaluator\<close>


text \<open>A reference name that the rewriting of \<^verbatim>\<open>evaluate\<close> carries into the lookup call
  unchanged: plain, and free of the closing brace, the dollar sign and the text \<^verbatim>\<open>' + '\<close>.\<close>

definition simple_name :: "string \<Rightarrow> bool" where
  "simple_name name =
     (plain_name name \<and> CHR ''}'' \<notin> set name \<and> CHR ''$'' \<notin> set name
      \<and> \<not> contains '' + '' name)"

text \<open>An expression that the rewriting leaves as it is: no wrapper, no dollar sign and no
  \<^verbatim>\<open>' + '\<close>.\<close>

definition untouched :: "string \<Rightarrow> bool" where
  "untouched e = (strip_cdata e = e \<and> CHR ''$'' \<notin> set e \<and> \<not> contains '' + '' e)"

text \<open>A text in double quotes, which \<^verbatim>\<open>evaluate\<close> takes for a string literal.\<close>

definition quoted :: "string \<Rightarrow> bool" where
  "quoted e = (prefix [dq] e \<and> suffix [dq] e)"

section \<open>Notions and examples for the statements about rendering\<close>


text \<open>The example of the sums: a group on \<^verbatim>\<open>g\<close>, a \<^verbatim>\<open>Sum\<close> variable over \<^verbatim>\<open>amt\<close> whose
  reset type is the group, another whose reset type is the report, and a summary band.\<close>

definition sum_variable :: "string \<Rightarrow> string \<Rightarrow> string option \<Rightarrow> variable" where
  "sum_variable name reset_type reset_group =
     \<lparr>var_name = name, var_class_name = ''java.lang.Double'', var_calculation = ''Sum'',
      var_expression = Some ''$F{amt}'', var_initial_value = None,
      var_reset_type = reset_type, var_reset_group = reset_group\<rparr>"

definition sums_report :: report_definition where
  "sums_report = empty_report
     \<lparr>rd_variables := [sum_variable ''group_total'' ''Group'' (Some ''g''),
                       sum_variable ''report_total'' ''Report'' None],
      rd_groups := [\<lparr>group_name = ''g'', group_expression = ''$F{g}'',
                      header_height = 0, footer_height = 0\<rparr>],
      rd_bands := [band_of ''summary'' [text_field ''$V{report_total}'']]\<rparr>"

definition sums_rows :: "row list" where
  "sums_rows = [[(''g'', PyStr ''x''), (''amt'', PyInt 10)],
                [(''g'', PyStr ''x''), (''amt'', PyInt 5)],
                [(''g'', PyStr ''y''), (''amt'', PyInt 7)]]"


text \<open>
  Two hosts give the same answers on a template when they agree on \<^verbatim>\<open>float\<close> and on the
  currency format, and \<^verbatim>\<open>eval\<close> answers alike on the rewritten expression of every element
  of every band.
\<close>

definition same_answers :: "host \<Rightarrow> host \<Rightarrow> report_definition \<Rightarrow> bool" where
  "same_answers h1 h2 rd =
     (float_parse h1 = float_parse h2 \<and> currency h1 = currency h2
      \<and> (\<forall>b \<in> snd ` set (rd_bands rd). \<forall>element \<in> set (band_elements b). \<forall>self.
            eval_str h1 (rewrite (or_empty (el_expression element))) self
              = eval_str h2 (rewrite (or_empty (el_expression element))) self))"

text \<open>
  \<^verbatim>\<open>eval\<close> runs the rewritten expression as Python code, so its answer may depend on more
  than the template, the data and the parameters: the expression
  \<^verbatim>\<open>__import__('time').time()\<close> reads the clock. \<open>clock_host t\<close> is the host of the examples
  at a moment when the clock shows \<open>t\<close> seconds.
\<close>

definition clock_text :: string where
  "clock_text = ''__import__('time').time()''"

definition clock_host :: "rat \<Rightarrow> host" where
  "clock_host t = ex_host
     \<lparr>eval_str := (\<lambda>text self. if text = clock_text then Some (ex_float_str t)
                               else eval_str ex_host text self)\<rparr>"

definition clock_report :: report_definition where
  "clock_report = empty_report\<lparr>rd_bands := [band_of ''detail'' [text_field clock_text]]\<rparr>"

definition name_report :: report_definition where
  "name_report = empty_report\<lparr>rd_bands := [band_of ''detail'' [text_field ''$F{name}'']]\<rparr>"


chapter \<open>Properties\<close>

section \<open>Grouping\<close>

lemma py_eq_refl: "py_eq a a"
  by (cases a) auto

lemma py_eq_sym: "py_eq a b \<Longrightarrow> py_eq b a"
  by (cases a; cases b) auto

lemma py_eq_trans: "py_eq a b \<Longrightarrow> py_eq b c \<Longrightarrow> py_eq a c"
  by (cases a; cases b; cases c) auto

lemma group_by_snoc:
  "group_by f (xs @ [x]) = group_insert (row_key f x) x (group_by f xs)"
  by (simp add: group_by_def row_key_def)

lemma first_keys_snoc:
  "first_keys (ks @ [k]) =
     (if \<exists>k'\<in>set ks. py_eq k' k then first_keys ks else first_keys ks @ [k])"
proof (induction ks rule: first_keys.induct)
  case 1
  then show ?case by simp
next
  case (2 a ks)
  show ?case
  proof (cases "py_eq a k")
    case True
    then show ?thesis by auto
  next
    case False
    have "(\<exists>k'\<in>set (filter (\<lambda>k'. \<not> py_eq a k') ks). py_eq k' k) = (\<exists>k'\<in>set ks. py_eq k' k)"
      using False by (auto dest: py_eq_trans)
    with False 2 show ?thesis by simp
  qed
qed

lemma first_keys_subset: "set (first_keys ks) \<subseteq> set ks"
  by (induction ks rule: first_keys.induct) auto

lemma first_keys_cover: "k \<in> set ks \<Longrightarrow> \<exists>k'\<in>set (first_keys ks). py_eq k' k"
proof (induction ks rule: first_keys.induct)
  case 1
  then show ?case by simp
next
  case (2 a ks)
  show ?case
  proof (cases "py_eq a k")
    case True
    then show ?thesis by auto
  next
    case False
    with 2 show ?thesis by (auto simp: py_eq_refl)
  qed
qed

lemma first_keys_unique:
  "k1 \<in> set (first_keys ks) \<Longrightarrow> k2 \<in> set (first_keys ks) \<Longrightarrow> py_eq k1 k \<Longrightarrow> py_eq k2 k
     \<Longrightarrow> k1 = k2"
proof (induction ks rule: first_keys.induct)
  case 1
  then show ?case by simp
next
  case (2 a ks)
  have sub: "\<And>x. x \<in> set (first_keys (filter (\<lambda>k'. \<not> py_eq a k') ks)) \<Longrightarrow> \<not> py_eq a x"
    using first_keys_subset by fastforce
  have nk: "\<And>x. x \<in> set (first_keys (filter (\<lambda>k'. \<not> py_eq a k') ks)) \<Longrightarrow> py_eq x k \<Longrightarrow> \<not> py_eq a k"
  proof
    fix x assume x: "x \<in> set (first_keys (filter (\<lambda>k'. \<not> py_eq a k') ks))" "py_eq x k" "py_eq a k"
    from x(2) have "py_eq k x" by (rule py_eq_sym)
    with x(3) have "py_eq a x" by (rule py_eq_trans)
    with sub[OF x(1)] show False by simp
  qed
  consider "k1 = a" "k2 = a" | "k1 = a" "k2 \<noteq> a" | "k1 \<noteq> a" "k2 = a" | "k1 \<noteq> a" "k2 \<noteq> a" by blast
  then show ?case
  proof cases
    case 1 then show ?thesis by simp
  next
    case 2
    then have "k2 \<in> set (first_keys (filter (\<lambda>k'. \<not> py_eq a k') ks))" using "2.prems" by simp
    from nk[OF this] "2.prems" 2 show ?thesis by simp
  next
    case 3
    then have "k1 \<in> set (first_keys (filter (\<lambda>k'. \<not> py_eq a k') ks))" using "2.prems" by simp
    from nk[OF this] "2.prems" 3 show ?thesis by simp
  next
    case 4
    then show ?thesis using "2.IH" "2.prems" by simp
  qed
qed

lemma first_keys_distinct: "distinct (first_keys ks)"
proof (induction ks rule: first_keys.induct)
  case 1
  then show ?case by simp
next
  case (2 a ks)
  have "a \<notin> set (first_keys (filter (\<lambda>k'. \<not> py_eq a k') ks))"
    using first_keys_subset[of "filter (\<lambda>k'. \<not> py_eq a k') ks"] by (auto simp: py_eq_refl)
  with 2 show ?case by simp
qed

lemma group_insert_present:
  "distinct ks \<Longrightarrow> k0 \<in> set ks \<Longrightarrow> py_eq k0 k
    \<Longrightarrow> (\<And>k1. k1 \<in> set ks \<Longrightarrow> py_eq k1 k \<Longrightarrow> k1 = k0)
    \<Longrightarrow> group_insert k r (map (\<lambda>k'. (k', F k')) ks) =
        map (\<lambda>k'. (k', F k' @ (if py_eq k' k then [r] else []))) ks"
proof (induction ks)
  case Nil
  then show ?case by simp
next
  case (Cons a ks)
  show ?case
  proof (cases "py_eq a k")
    case True
    have a: "a = k0" using Cons.prems(4)[of a] True by simp
    have no: "\<And>k'. k' \<in> set ks \<Longrightarrow> \<not> py_eq k' k"
    proof
      fix k' assume k': "k' \<in> set ks" "py_eq k' k"
      then have "k' = k0" using Cons.prems(4)[of k'] by simp
      with a k'(1) Cons.prems(1) show False by simp
    qed
    have "map (\<lambda>k'. (k', F k' @ (if py_eq k' k then [r] else []))) ks = map (\<lambda>k'. (k', F k')) ks"
      by (rule map_cong) (simp_all add: no)
    with True show ?thesis by simp
  next
    case False
    have in_ks: "k0 \<in> set ks" using Cons.prems(2,3) False by auto
    have d: "distinct ks" using Cons.prems(1) by simp
    have u: "\<And>k1. k1 \<in> set ks \<Longrightarrow> py_eq k1 k \<Longrightarrow> k1 = k0"
      using Cons.prems(4) by (meson list.set_intros(2))
    have "group_insert k r (map (\<lambda>k'. (k', F k')) ks) =
        map (\<lambda>k'. (k', F k' @ (if py_eq k' k then [r] else []))) ks"
      by (rule Cons.IH[OF d in_ks Cons.prems(3) u])
    with False show ?thesis by simp
  qed
qed

lemma group_insert_absent:
  "(\<And>k1. k1 \<in> set ks \<Longrightarrow> \<not> py_eq k1 k)
    \<Longrightarrow> group_insert k r (map (\<lambda>k'. (k', F k')) ks) = map (\<lambda>k'. (k', F k')) ks @ [(k, [r])]"
  by (induction ks) auto

text \<open>
  Claim C1, as the code has it. \<^verbatim>\<open>group_by\<close> does not cut the row sequence into runs of
  adjacent rows: it is a dictionary, so there is one group for every distinct key value, the
  groups stand in the order in which their keys first occur, and a group holds all the rows
  that carry its key, in row order, whether they are adjacent or not.
\<close>

theorem group_by_groups_by_key:
  "group_by f data =
     map (\<lambda>k. (k, filter (\<lambda>r. py_eq k (row_key f r)) data)) (first_keys (map (row_key f) data))"
proof (induction data rule: rev_induct)
  case Nil
  then show ?case by (simp add: group_by_def)
next
  case (snoc x xs)
  let ?k = "row_key f x"
  let ?ks = "first_keys (map (row_key f) xs)"
  let ?F = "\<lambda>k. filter (\<lambda>r. py_eq k (row_key f r)) xs"
  have step: "group_by f (xs @ [x]) = group_insert ?k x (map (\<lambda>k'. (k', ?F k')) ?ks)"
    using snoc by (simp add: group_by_snoc)
  show ?case
  proof (cases "\<exists>k'\<in>set (map (row_key f) xs). py_eq k' ?k")
    case True
    then obtain k1 where k1: "k1 \<in> set (map (row_key f) xs)" "py_eq k1 ?k" by blast
    then obtain k0 where k0: "k0 \<in> set ?ks" "py_eq k0 k1" using first_keys_cover by blast
    then have k0k: "py_eq k0 ?k" using k1 py_eq_trans by blast
    have uniq: "\<And>k2. k2 \<in> set ?ks \<Longrightarrow> py_eq k2 ?k \<Longrightarrow> k2 = k0"
      using first_keys_unique k0(1) k0k by blast
    have "group_insert ?k x (map (\<lambda>k'. (k', ?F k')) ?ks) =
        map (\<lambda>k'. (k', ?F k' @ (if py_eq k' ?k then [x] else []))) ?ks"
      by (rule group_insert_present[OF first_keys_distinct k0(1) k0k uniq])
    with step True show ?thesis by (simp add: first_keys_snoc)
  next
    case False
    then have none: "\<And>k1. k1 \<in> set ?ks \<Longrightarrow> \<not> py_eq k1 ?k"
      using first_keys_subset by blast
    have empty: "?F ?k = []"
      using False py_eq_sym by (fastforce simp: filter_empty_conv)
    have same: "map (\<lambda>k'. (k', filter (\<lambda>r. py_eq k' (row_key f r)) (xs @ [x]))) ?ks
          = map (\<lambda>k'. (k', ?F k')) ?ks"
      using none by (intro map_cong) auto
    have "group_insert ?k x (map (\<lambda>k'. (k', ?F k')) ?ks) = map (\<lambda>k'. (k', ?F k')) ?ks @ [(?k, [x])]"
      by (rule group_insert_absent[OF none])
    with step False same empty show ?thesis by (simp add: first_keys_snoc py_eq_refl)
  qed
qed

text \<open>
  Claim C1, as stated, on its own example: the rows \<^verbatim>\<open>[{k:1},{k:2},{k:1}]\<close> grouped by
  \<^verbatim>\<open>k\<close> give two groups, of sizes 2 and 1, and not three groups of size 1.
\<close>

theorem group_by_example_two_groups:
  "group_by ''k'' [[(''k'', PyInt 1)], [(''k'', PyInt 2)], [(''k'', PyInt 1)]] =
     [(PyInt 1, [[(''k'', PyInt 1)], [(''k'', PyInt 1)]]), (PyInt 2, [[(''k'', PyInt 2)]])]
   \<and> map (\<lambda>g. length (snd g))
        (group_by ''k'' [[(''k'', PyInt 1)], [(''k'', PyInt 2)], [(''k'', PyInt 1)]]) = [2, 1]"
  by (simp add: group_by_def row_key_def dict_get_def)

section \<open>Preview\<close>

lemma preview_data_never_raises: "\<exists>rows. preview_data jr limit = Inr rows"
  by (auto simp: preview_data_def bind_r_def split: option.splits sum.splits)

text \<open>
  Claim C8. The preview query is run when no data is bound, a data source is configured
  and the template has a query; when running it fails, \<^verbatim>\<open>preview_data\<close> returns the empty
  list and does not raise.
\<close>

theorem preview_data_query_failure:
  assumes "jr_data jr = []"
    and "jr_engine jr = Some db"
    and "truthy (rd_query (report_def jr))"
    and "run_query db (preview_query db (or_empty (rd_query (report_def jr))) limit)
           (jr_parameters jr) = Inl e"
  shows "preview_data jr limit = Inr []"
  using assms by (simp add: preview_data_def bind_r_def)

theorem preview_data_query_failure_witness:
  "preview_data
     \<lparr>report_def = empty_report\<lparr>rd_query := Some ''SELECT name FROM items''\<rparr>,
      jr_data = [], jr_parameters = [], jr_engine = Some failing_db\<rparr> 10 = Inr []"
  by (rule preview_data_query_failure [where db = failing_db and e = DatabaseError])
     (simp_all add: failing_db_def empty_report_def)

section \<open>Validation\<close>

lemma ref_at_token:
  assumes "name \<noteq> []" and "CHR ''}'' \<notin> set name"
  shows "ref_at x (CHR ''$'' # x # CHR ''{'' # name @ CHR ''}'' # post) = Some (name, post)"
proof -
  have t: "takeWhile (\<lambda>c. c \<noteq> CHR ''}'') (name @ CHR ''}'' # post) = name"
    using assms(2) by (induction name) auto
  have d: "dropWhile (\<lambda>c. c \<noteq> CHR ''}'') (name @ CHR ''}'' # post) = CHR ''}'' # post"
    using assms(2) by (induction name) auto
  show ?thesis
    using assms(1) by (simp add: ref_at_def t d)
qed

lemma ref_at_no_dollar: "CHR ''$'' \<noteq> c \<Longrightarrow> ref_at x (c # cs) = None"
  by (simp add: ref_at_def)


lemma find_refs_skip: "CHR ''$'' \<notin> set pre \<Longrightarrow> find_refs x (pre @ s) = find_refs x s"
  by (induction pre) (simp_all add: ref_at_no_dollar)





section \<open>The parser\<close>

lemmas parser_defs = parse_def namespace_of_def int_attr_def bind_r_def parse_groups_def
  parse_group_def parse_bands_def parse_band_step_def band_types_def find_desc_child2_def
  findall_desc_child_def findall_desc_def findall_child_def findall_desc2_def find_desc2_def
  find_child2_def find_child_child2_def findall_child_child_def first_def qn_def
  default_namespace_def parse_fields_def parse_variables_def parse_parameters_def
  band_height_of_def parse_band_elements_def parse_static_text_def parse_text_field_def
  parse_element_def parse_style_def stripped_text_def parse_field_def parse_variable_def
  parse_parameter_step_def

lemmas ex_host_defs = ex_host_def ex_int_parse_def ex_nat_parse_def py_strip_def is_space_def
  no_style_def

lemma bind_r_Inr: "bind_r m f = Inr v \<Longrightarrow> \<exists>u. m = Inr u \<and> f u = Inr v"
  by (cases m) (simp_all add: bind_r_def)

lemma parse_Inr:
  assumes "parse h root_elem = Inr rd"
  shows "\<exists>ns. namespace_of root_elem = Inr ns
            \<and> parse_bands h ns root_elem = Inr (rd_bands rd)
            \<and> rd_query rd = parse_query ns root_elem"
proof -
  from assms obtain ns where ns: "namespace_of root_elem = Inr ns"
    unfolding parse_def by (blast dest: bind_r_Inr)
  from assms ns obtain bands where b: "parse_bands h ns root_elem = Inr bands"
    unfolding parse_def by (auto simp: bind_r_def split: sum.splits)
  from assms ns b have "rd_bands rd = bands" "rd_query rd = parse_query ns root_elem"
    unfolding parse_def by (auto simp: bind_r_def split: sum.splits)
  with ns b show ?thesis by simp
qed







lemma parse_band_step_keys:
  assumes "parse_band_step h ns root_elem acc t = Inr bands"
  shows "\<exists>bands0. acc = Inr bands0 \<and> fst ` set bands \<subseteq> insert t (fst ` set bands0)"
proof -
  from assms obtain bands0 where acc: "acc = Inr bands0"
    unfolding parse_band_step_def by (blast dest: bind_r_Inr)
  have "fst ` set bands \<subseteq> insert t (fst ` set bands0)"
  proof (cases "find_desc_child2 ns t ''band'' root_elem")
    case None
    with assms acc show ?thesis by (auto simp: parse_band_step_def bind_r_def)
  next
    case (Some band_elem)
    with assms acc obtain b where "bands = AList.update t b bands0"
      by (auto simp: parse_band_step_def bind_r_def split: sum.splits)
    then show ?thesis by (simp add: dom_update)
  qed
  with acc show ?thesis by simp
qed

lemma parse_band_loop_keys:
  "foldl (parse_band_step h ns root_elem) acc ts = Inr bands
     \<Longrightarrow> \<exists>bands0. acc = Inr bands0 \<and> fst ` set bands \<subseteq> fst ` set bands0 \<union> set ts"
proof (induction ts arbitrary: acc)
  case Nil
  then show ?case by simp
next
  case (Cons t ts)
  from Cons.prems have "foldl (parse_band_step h ns root_elem)
      (parse_band_step h ns root_elem acc t) ts = Inr bands" by simp
  from Cons.IH [OF this] obtain bands1 where
    b1: "parse_band_step h ns root_elem acc t = Inr bands1"
        "fst ` set bands \<subseteq> fst ` set bands1 \<union> set ts" by blast
  from parse_band_step_keys [OF b1(1)] obtain bands0 where
    "acc = Inr bands0" "fst ` set bands1 \<subseteq> insert t (fst ` set bands0)" by blast
  with b1(2) show ?case by auto
qed

lemma parse_bands_keys:
  "parse_bands h ns root_elem = Inr bands \<Longrightarrow> fst ` set bands \<subseteq> set band_types"
  using parse_band_loop_keys [of h ns root_elem "Inr []" band_types bands]
  by (simp add: parse_bands_def)

lemma absent_key: "k \<notin> fst ` set d \<Longrightarrow> map_of d k = None"
  by (simp add: map_of_eq_None_iff)

text \<open>
  Claim C7. The band mapping of a template that the parser returns has keys among the
  eight band types of the parser only. It has no band under \<^verbatim>\<open>groupHeader\<close> and none under
  \<^verbatim>\<open>groupFooter\<close>, so a round of the group loop of the HTML renderer writes the detail rows
  of the group and nothing else: the branches for the two group bands are not taken. (The
  PDF renderer has no such branches.)
\<close>

theorem parsed_template_band_keys:
  assumes "parse h root_elem = Inr rd"
  shows "fst ` set (rd_bands rd) \<subseteq> set band_types
       \<and> \<not> dict_has (rd_bands rd) ''groupHeader''
       \<and> \<not> dict_has (rd_bands rd) ''groupFooter''
       \<and> fst (render_group h' rd parameters group_field variables g)
           = map (\<lambda>r. (''detail'', render_detail_row h' rd variables parameters r)) (snd g)"
proof -
  from parse_Inr [OF assms] obtain ns where "parse_bands h ns root_elem = Inr (rd_bands rd)"
    by blast
  then have keys: "fst ` set (rd_bands rd) \<subseteq> set band_types"
    by (rule parse_bands_keys)
  have "''groupHeader'' \<notin> set band_types" "''groupFooter'' \<notin> set band_types"
    by (simp_all add: band_types_def)
  with keys have "''groupHeader'' \<notin> fst ` set (rd_bands rd)"
    "''groupFooter'' \<notin> fst ` set (rd_bands rd)" by blast+
  then have none: "map_of (rd_bands rd) ''groupHeader'' = None"
    "map_of (rd_bands rd) ''groupFooter'' = None"
    by (simp_all add: absent_key)
  with keys show ?thesis
    by (simp add: dict_has_def render_group_def Let_def)
qed

theorem parsed_template_band_keys_witness:
  "map_sum id
     (\<lambda>rd. (dict_has (rd_bands rd) ''title'', dict_has (rd_bands rd) ''groupHeader'',
            dict_has (rd_bands rd) ''groupFooter''))
     (parse ex_host group_doc) = Inr (True, False, False)"
proof -
  obtain rd where rd: "parse ex_host group_doc = Inr rd"
    by (simp add: parser_defs ex_host_defs group_doc_def static_text_xml_def
          report_element_xml_def)
  have "map_sum id (\<lambda>rd. dict_has (rd_bands rd) ''title'') (parse ex_host group_doc) = Inr True"
    by (simp add: parser_defs ex_host_defs group_doc_def static_text_xml_def
          report_element_xml_def dict_has_def)
  with rd have t: "dict_has (rd_bands rd) ''title''" by simp
  from parsed_template_band_keys [OF rd]
  have "\<not> dict_has (rd_bands rd) ''groupHeader''" "\<not> dict_has (rd_bands rd) ''groupFooter''"
    by simp_all
  with rd t show ?thesis by simp
qed

section \<open>The expression evaluator\<close>

lemma sub_refs_no_dollar: "CHR ''$'' \<notin> set s \<Longrightarrow> sub_refs x repl s = s"
  by (induction s) (simp_all add: ref_at_no_dollar)

lemma ref_at_no_brace: "CHR ''}'' \<notin> set s \<Longrightarrow> ref_at x s = None"
proof -
  assume a: "CHR ''}'' \<notin> set s"
  have "CHR ''}'' \<notin> set (drop 3 s)"
    using a in_set_dropD by fastforce
  then have d: "dropWhile (\<lambda>c. c \<noteq> CHR ''}'') (drop 3 s) = []"
    by (simp add: dropWhile_eq_Nil_conv) metis
  show ?thesis unfolding ref_at_def Let_def d by simp
qed

lemma sub_refs_no_brace: "CHR ''}'' \<notin> set s \<Longrightarrow> sub_refs x repl s = s"
  by (induction s) (simp_all add: ref_at_no_brace del: set_simps, simp_all)

lemma contains_prefix_part: "contains (a @ b) s \<Longrightarrow> contains a s"
  by (induction s) (auto simp: prefix_def)

lemma contains_set: "contains sub s \<Longrightarrow> set sub \<subseteq> set s"
proof (induction s)
  case Nil
  then show ?case by simp
next
  case (Cons c cs)
  from Cons.prems have "prefix sub (c # cs) \<or> contains sub cs" by simp
  then show ?case
  proof
    assume "prefix sub (c # cs)"
    then show ?thesis by (rule set_mono_prefix)
  next
    assume "contains sub cs"
    then have "set sub \<subseteq> set cs" by (rule Cons.IH)
    then show ?thesis by auto
  qed
qed

lemma str_replace_absent: "\<not> contains old s \<Longrightarrow> str_replace old new s = s"
  by (induction old new s rule: str_replace.induct) auto

lemma rewrite_concat_untouched: "\<not> contains '' + '' e \<Longrightarrow> rewrite_concat e = e"
proof -
  assume a: "\<not> contains '' + '' e"
  have "\<not> contains ('' + '' @ ''str('') e"
    using a contains_prefix_part by blast
  then have "\<not> contains '' + str('' e" by simp
  with a show ?thesis by (simp add: rewrite_concat_def str_replace_absent)
qed

lemma rewrite_untouched: "untouched e \<Longrightarrow> rewrite e = e"
  by (simp add: untouched_def rewrite_def rewrite_refs_def sub_refs_no_dollar
      rewrite_concat_untouched)






lemma sub_refs_self:
  assumes "name \<noteq> []" and "CHR ''}'' \<notin> set name"
  shows "sub_refs x repl (CHR ''$'' # x # CHR ''{'' # name @ ''}'') = repl name"
  using ref_at_token [OF assms, of x "[]"] by simp


lemma contains_plus_front:
  "CHR ''+'' \<notin> set pre \<Longrightarrow> (pre \<noteq> [] \<longrightarrow> last pre \<noteq> CHR '' '')
     \<Longrightarrow> contains '' + '' (pre @ t) = contains '' + '' t"
proof (induction pre)
  case Nil
  then show ?case by simp
next
  case (Cons c pre)
  have "\<not> prefix '' + '' (c # pre @ t)"
  proof (cases pre)
    case Nil
    with Cons.prems show ?thesis by simp
  next
    case (Cons d pre')
    with Cons.prems show ?thesis by auto
  qed
  moreover have "contains '' + '' (pre @ t) = contains '' + '' t"
    using Cons by (cases pre) auto
  moreover have "contains '' + '' ((c # pre) @ t)
      = (prefix '' + '' (c # pre @ t) \<or> contains '' + '' (pre @ t))"
    by (simp only: append_Cons contains.simps)
  ultimately show ?case by blast
qed

lemma contains_plus_back:
  "\<not> contains '' + '' name \<Longrightarrow> CHR ''+'' \<notin> set suf \<Longrightarrow> suf \<noteq> [] \<Longrightarrow> hd suf \<noteq> CHR '' ''
     \<Longrightarrow> \<not> contains '' + '' (name @ suf)"
proof (induction name)
  case Nil
  then show ?case using contains_set [of "'' + ''" suf] by auto
next
  case (Cons c name)
  from Cons.prems(1) have np: "\<not> prefix '' + '' (c # name)" and nc: "\<not> contains '' + '' name"
    by simp_all
  have "\<not> prefix '' + '' (c # name @ suf)"
  proof (cases name)
    case Nil
    with Cons.prems(2,3) show ?thesis by (cases suf) auto
  next
    case c1: (Cons d name')
    show ?thesis
    proof (cases name')
      case Nil
      with c1 Cons.prems(3,4) show ?thesis by (cases suf) auto
    next
      case (Cons d' name'')
      with c1 np show ?thesis by auto
    qed
  qed
  moreover have "\<not> contains '' + '' (name @ suf)"
    using Cons.IH [OF nc Cons.prems(2,3,4)] .
  moreover have "contains '' + '' ((c # name) @ suf)
      = (prefix '' + '' (c # name @ suf) \<or> contains '' + '' (name @ suf))"
    by (simp only: append_Cons contains.simps)
  ultimately show ?case by blast
qed

lemma get_call_no_plus:
  assumes "\<not> contains '' + '' name"
    and "store = ''data'' \<or> store = ''variables'' \<or> store = ''parameters''"
  shows "\<not> contains '' + '' (get_call store name)"
proof -
  let ?suf = "[sq] @ '', '' @ [sq, sq] @ '')''"
  have tail_part: "\<not> contains '' + '' (name @ ?suf)"
    by (rule contains_plus_back [OF assms(1)]) (simp_all add: sq_def)
  have "contains '' + '' ((''self.'' @ store @ ''.get('' @ [sq]) @ (name @ ?suf))
          = contains '' + '' (name @ ?suf)"
    by (rule contains_plus_front) (use assms(2) in \<open>auto simp: sq_def\<close>)
  with tail_part show ?thesis by (simp add: get_call_def)
qed

lemma get_call_no_brace:
  assumes "CHR ''}'' \<notin> set name"
    and "store = ''data'' \<or> store = ''variables'' \<or> store = ''parameters''"
  shows "CHR ''}'' \<notin> set (get_call store name)"
  using assms by (auto simp: get_call_def sq_def)

lemma get_call_shape:
  assumes "simple_name name"
    and "store = ''data'' \<or> store = ''variables'' \<or> store = ''parameters''"
  shows "rewrite_concat (get_call store name) = get_call store name"
    and "\<not> quoted (get_call store name)"
    and "sub_refs x repl (get_call store name) = get_call store name"
proof -
  show "rewrite_concat (get_call store name) = get_call store name"
    using assms by (simp add: simple_name_def rewrite_concat_untouched get_call_no_plus)
  show "\<not> quoted (get_call store name)"
    by (simp add: quoted_def get_call_def dq_def)
  show "sub_refs x repl (get_call store name) = get_call store name"
    using assms by (simp add: simple_name_def sub_refs_no_brace get_call_no_brace)
qed

lemma ref_not_wrapped: "strip_cdata (CHR ''$'' # s) = CHR ''$'' # s"
  by (simp add: strip_cdata_def cdata_open_def)

lemma rewrite_field_ref:
  assumes "simple_name name"
  shows "rewrite (''$F{'' @ name @ ''}'') = get_call ''data'' name"
proof -
  from assms have n: "name \<noteq> []" "CHR ''}'' \<notin> set name"
    by (simp_all add: simple_name_def plain_name_def)
  have "sub_refs (CHR ''F'') (get_call ''data'') (''$F{'' @ name @ ''}'') = get_call ''data'' name"
    using sub_refs_self [OF n] by simp
  then show ?thesis
    using get_call_shape [OF assms, of "''data''"]
    by (simp add: rewrite_def rewrite_refs_def ref_not_wrapped)
qed












section \<open>Totals\<close>

lemma set_total_other:
  "n \<noteq> var_name v \<Longrightarrow> map_of (set_total h rows variables v) n = map_of variables n"
  by (simp add: set_total_def update_conv split: option.split)

lemma set_totals_loop_other:
  "n \<notin> var_name ` set vs \<Longrightarrow> map_of (foldl (set_total h rows) variables vs) n = map_of variables n"
  by (induction vs arbitrary: variables) (simp_all add: set_total_other)

lemma set_total_sum:
  assumes "var_calculation v = ''Sum''"
    and "search_ref (CHR ''F'') (or_empty (var_expression v)) = Some f"
  shows "map_of (set_total h rows variables v) (var_name v) = Some (PyFloat (calculate_sum h f rows))"
  using assms by (simp add: set_total_def update_conv)

lemma set_totals_loop_sum:
  assumes "v \<in> set vs"
    and "distinct (map var_name vs)"
    and "var_calculation v = ''Sum''"
    and "search_ref (CHR ''F'') (or_empty (var_expression v)) = Some f"
  shows "map_of (foldl (set_total h rows) variables vs) (var_name v)
           = Some (PyFloat (calculate_sum h f rows))"
  using assms(1,2)
proof (induction vs arbitrary: variables)
  case Nil
  then show ?case by simp
next
  case (Cons a vs)
  show ?case
  proof (cases "v = a")
    case True
    have "var_name v \<notin> var_name ` set vs"
      using Cons.prems(2) True by auto
    then have "map_of (foldl (set_total h rows) (set_total h rows variables a) vs) (var_name v)
        = map_of (set_total h rows variables a) (var_name v)"
      by (rule set_totals_loop_other)
    with True show ?thesis
      using set_total_sum [OF assms(3,4)] by simp
  next
    case False
    with Cons.prems have "v \<in> set vs" "distinct (map var_name vs)" by simp_all
    from Cons.IH [OF this] show ?thesis by simp
  qed
qed

text \<open>
  Claim C2, as the code has it. The reset type of a variable is never read. After the
  round of a group every \<^verbatim>\<open>Sum\<close> variable over a field holds the sum of that field over
  the rows of this group, which is the value the group footer shows; when the summary band
  is rendered every such variable is set to the sum over all rows. (The names of the
  variables are taken to be distinct.) On the rows of the claim both variables hold 15 and
  then 7 at the group footers, and both hold 22 in the summary.
\<close>

theorem sum_variables_per_group_and_summary:
  assumes "v \<in> set (rd_variables rd)"
    and "distinct (map var_name (rd_variables rd))"
    and "var_calculation v = ''Sum''"
    and "search_ref (CHR ''F'') (or_empty (var_expression v)) = Some f"
  shows "map_of (snd (render_group h rd parameters group_field variables (k, rows))) (var_name v)
           = Some (PyFloat (calculate_sum h f rows))
       \<and> (dict_has (rd_bands rd) ''summary'' \<longrightarrow>
            map_of (snd (render_summary h rd data variables parameters)) (var_name v)
              = Some (PyFloat (calculate_sum h f data)))"
  using set_totals_loop_sum [OF assms]
  by (auto simp: render_group_def render_summary_def set_totals_def Let_def dict_has_def)

lemmas sums_defs = sums_report_def sums_rows_def sum_variable_def empty_report_def band_of_def
  text_field_def

lemmas search_defs = search_ref_def ref_at_def

lemmas sum_defs = calculate_sum_def sum_step_def dict_get_def

theorem sum_variables_per_group_and_summary_witness:
  "map_of (snd (render_group ex_host sums_report [] ''g'' [] (PyStr ''x'', take 2 sums_rows)))
     ''report_total'' = Some (PyFloat 15)
   \<and> map_of (snd (render_group ex_host sums_report [] ''g'' [] (PyStr ''y'', drop 2 sums_rows)))
     ''report_total'' = Some (PyFloat 7)
   \<and> map_of (snd (render_summary ex_host sums_report sums_rows [] [])) ''report_total''
     = Some (PyFloat 22)"
proof -
  let ?v = "sum_variable ''report_total'' ''Report'' None"
  have v: "?v \<in> set (rd_variables sums_report)"
    by (simp add: sums_defs)
  have d: "distinct (map var_name (rd_variables sums_report))"
    by (simp add: sums_defs)
  have c: "var_calculation ?v = ''Sum''"
    by (simp add: sum_variable_def)
  have f: "search_ref (CHR ''F'') (or_empty (var_expression ?v)) = Some ''amt''"
    by (simp add: sum_variable_def search_defs)
  have s: "dict_has (rd_bands sums_report) ''summary''"
    by (simp add: sums_defs dict_has_def)
  have n: "var_name ?v = ''report_total''"
    by (simp add: sum_variable_def)
  have sums: "calculate_sum ex_host ''amt'' (take 2 sums_rows) = 15"
    "calculate_sum ex_host ''amt'' (drop 2 sums_rows) = 7"
    "calculate_sum ex_host ''amt'' sums_rows = 22"
    by (simp_all add: sums_rows_def sum_defs)
  from sum_variables_per_group_and_summary
      [where h = ex_host and parameters = "[]" and group_field = "''g''" and variables = "[]"
         and k = "PyStr ''x''" and rows = "take 2 sums_rows" and data = sums_rows, OF v d c f]
    sum_variables_per_group_and_summary
      [where h = ex_host and parameters = "[]" and group_field = "''g''" and variables = "[]"
         and k = "PyStr ''y''" and rows = "drop 2 sums_rows" and data = sums_rows, OF v d c f]
  show ?thesis
    using s by (simp only: n sums)
qed

text \<open>
  Claim C2, as stated, on its own rows. The variable whose reset type is the report does not
  accumulate over the whole row sequence: when the first group is done it holds 15, and when
  the second group is done it holds 7, the total of that group, like the variable whose
  reset type is the group. It holds 22 only after the summary band is rendered, and so
  does the variable of the group.
\<close>

theorem report_variable_holds_group_total_example:
  "snd (render_groups ex_host sums_report [] ''g'' [] (take 1 (group_by ''g'' sums_rows)))
     = [(''group_total'', PyFloat 15), (''report_total'', PyFloat 15)]
   \<and> snd (render_content ex_host sums_report sums_rows [] [])
     = [(''group_total'', PyFloat 7), (''report_total'', PyFloat 7)]
   \<and> snd (render_summary ex_host sums_report sums_rows
            (snd (render_content ex_host sums_report sums_rows [] [])) [])
     = [(''group_total'', PyFloat 22), (''report_total'', PyFloat 22)]"
proof -
  have g: "group_by ''g'' sums_rows
      = [(PyStr ''x'', take 2 sums_rows), (PyStr ''y'', drop 2 sums_rows)]"
    by (simp add: group_by_def row_key_def dict_get_def sums_rows_def)
  have sums: "calculate_sum ex_host ''amt'' (take 2 sums_rows) = 15"
    "calculate_sum ex_host ''amt'' (drop 2 sums_rows) = 7"
    "calculate_sum ex_host ''amt'' sums_rows = 22"
    by (simp_all add: sums_rows_def sum_defs)
  have f: "search_ref (CHR ''F'') ''$F{amt}'' = Some ''amt''"
    "search_ref (CHR ''F'') ''$F{g}'' = Some ''g''"
    by (simp_all add: search_defs)
  have t: "\<And>rows vs. set_totals ex_host sums_report rows vs
      = AList.update ''report_total'' (PyFloat (calculate_sum ex_host ''amt'' rows))
          (AList.update ''group_total'' (PyFloat (calculate_sum ex_host ''amt'' rows)) vs)"
    by (simp add: set_totals_def set_total_def sums_report_def sum_variable_def
        empty_report_def f)
  have r: "rd_groups sums_report \<noteq> []" "group_expression (hd (rd_groups sums_report)) = ''$F{g}''"
    "map_of (rd_bands sums_report) ''summary''
       = Some (snd (band_of ''summary'' [text_field ''$V{report_total}'']))"
    by (simp_all add: sums_report_def empty_report_def band_of_def)
  have nonempty: "sums_rows \<noteq> []"
    by (simp add: sums_rows_def)
  show ?thesis
    by (simp add: g render_content_def render_grouped_content_def render_group_def
        render_summary_def r f t sums nonempty Let_def split_def)
qed

section \<open>The order of the bands\<close>



















section \<open>Two generations of the same report\<close>

lemma evaluate_same:
  assumes "\<And>self. eval_str h1 (rewrite e) self = eval_str h2 (rewrite e) self"
  shows "evaluate h1 self e = evaluate h2 self e"
  using assms by (simp add: evaluate_def Let_def)

lemma same_answers_band:
  assumes "same_answers h1 h2 rd" and "map_of (rd_bands rd) key = Some b"
    and "element \<in> set (band_elements b)"
  shows "eval_str h1 (rewrite (or_empty (el_expression element))) self
           = eval_str h2 (rewrite (or_empty (el_expression element))) self"
proof -
  from assms(2) have "(key, b) \<in> set (rd_bands rd)" by (rule map_of_SomeD)
  then have "b \<in> snd ` set (rd_bands rd)" by force
  with assms(1,3) show ?thesis
    unfolding same_answers_def by blast
qed

lemma render_element_same:
  assumes "same_answers h1 h2 rd" and "map_of (rd_bands rd) key = Some b"
    and "element \<in> set (band_elements b)"
  shows "render_element h1 variables parameters element row_data evaluator
           = render_element h2 variables parameters element row_data evaluator"
proof -
  have e: "\<And>self. evaluate h1 self (or_empty (el_expression element))
      = evaluate h2 self (or_empty (el_expression element))"
    by (rule evaluate_same) (rule same_answers_band [OF assms])
  have c: "currency h1 = currency h2"
    using assms(1) by (simp add: same_answers_def)
  have fc: "format_currency h1 element = format_currency h2 element"
    by (intro ext, unfold format_currency_def, subst c, rule refl)
  have ec: "element_content h1 variables parameters element row_data evaluator
      = element_content h2 variables parameters element row_data evaluator"
    by (simp add: element_content_def Let_def e split: option.split)
  show ?thesis
    unfolding render_element_def by (subst fc, subst ec, rule refl)
qed

lemma render_band_same:
  assumes "same_answers h1 h2 rd" and "map_of (rd_bands rd) key = Some b"
  shows "render_band h1 variables parameters cls b row_data evaluator
           = render_band h2 variables parameters cls b row_data evaluator"
proof -
  have "map (\<lambda>element. render_element h1 variables parameters element row_data evaluator)
          (band_elements b)
      = map (\<lambda>element. render_element h2 variables parameters element row_data evaluator)
          (band_elements b)"
    by (rule map_cong [OF refl]) (rule render_element_same [OF assms])
  then have "concat (map (\<lambda>element. render_element h1 variables parameters element row_data evaluator)
          (band_elements b))
      = concat (map (\<lambda>element. render_element h2 variables parameters element row_data evaluator)
          (band_elements b))"
    by (rule arg_cong)
  then show ?thesis
    unfolding render_band_def by (rule arg_cong2 [OF refl arg_cong2 [OF _ refl]])
qed

lemma set_totals_same:
  assumes "same_answers h1 h2 rd"
  shows "set_totals h1 rd rows variables = set_totals h2 rd rows variables"
proof -
  have f: "float_parse h1 = float_parse h2"
    using assms by (simp add: same_answers_def)
  have s: "sum_step h1 = sum_step h2"
    by (intro ext, unfold sum_step_def, subst f, rule refl)
  have c: "calculate_sum h1 = calculate_sum h2"
    by (intro ext, unfold calculate_sum_def, subst s, rule refl)
  have t: "set_total h1 = set_total h2"
    by (intro ext, unfold set_total_def, subst c, rule refl)
  show ?thesis
    unfolding set_totals_def by (subst t, rule refl)
qed

lemma render_detail_row_same:
  assumes "same_answers h1 h2 rd"
  shows "render_detail_row h1 rd variables parameters r = render_detail_row h2 rd variables parameters r"
  by (simp add: render_detail_row_def render_band_same [OF assms] split: option.split)

lemma render_simple_content_same:
  assumes "same_answers h1 h2 rd"
  shows "render_simple_content h1 rd data variables parameters
           = render_simple_content h2 rd data variables parameters"
  by (simp add: render_simple_content_def render_column_header_def render_detail_row_same [OF assms]
      render_band_same [OF assms] split: option.split)

lemma render_group_same:
  assumes "same_answers h1 h2 rd"
  shows "render_group h1 rd parameters group_field variables g
           = render_group h2 rd parameters group_field variables g"
  by (simp add: render_group_def Let_def render_detail_row_same [OF assms]
      set_totals_same [OF assms] render_band_same [OF assms] split: option.split)

lemma render_groups_same:
  assumes "same_answers h1 h2 rd"
  shows "render_groups h1 rd parameters group_field variables gs
           = render_groups h2 rd parameters group_field variables gs"
  by (induction gs arbitrary: variables) (simp_all add: render_group_same [OF assms])

lemma render_content_same:
  assumes "same_answers h1 h2 rd"
  shows "render_content h1 rd data variables parameters = render_content h2 rd data variables parameters"
  by (simp add: render_content_def render_grouped_content_def render_simple_content_same [OF assms]
      render_groups_same [OF assms] split: option.split)

lemma render_summary_same:
  assumes "same_answers h1 h2 rd"
  shows "render_summary h1 rd data variables parameters = render_summary h2 rd data variables parameters"
  by (simp add: render_summary_def Let_def set_totals_same [OF assms] render_band_same [OF assms]
      split: option.split)

lemma generate_html_text_same:
  assumes "same_answers h1 h2 rd"
  shows "generate_html_text h1 rd data parameters = generate_html_text h2 rd data parameters"
proof -
  have "render_title h1 rd [] parameters = render_title h2 rd [] parameters"
    "render_page_header h1 rd [] parameters = render_page_header h2 rd [] parameters"
    "\<And>variables. render_page_footer h1 rd variables parameters
        = render_page_footer h2 rd variables parameters"
    by (simp_all add: render_title_def render_page_header_def render_page_footer_def
        render_band_same [OF assms] split: option.split)
  then have "generate_html_pieces h1 rd data parameters = generate_html_pieces h2 rd data parameters"
    by (simp add: generate_html_pieces_def render_content_same [OF assms]
        render_summary_same [OF assms])
  then show ?thesis by (simp add: generate_html_text_def)
qed

text \<open>
  Claim C10, as the code has it. A facade with its template, data and parameters is
  generated twice, by two hosts (two runs of the program). When the hosts give the same
  answers on the template, the two generations end alike: with the same exception, or
  with the same document and the same facade. The renderer and its variable map are new
  in every generation, so nothing is carried from one generation to the next.
\<close>

theorem generate_html_same_answers_same_document:
  assumes "same_answers h1 h2 (report_def jr)"
  shows "generate_html h1 jr = generate_html h2 jr"
proof (cases "if jr_data jr = [] \<and> truthy (rd_query (report_def jr)) then execute_query jr else Inr jr")
  case (Inl e)
  then show ?thesis by (simp add: generate_html_def bind_r_def)
next
  case (Inr jr')
  then have "report_def jr' = report_def jr"
    by (auto simp: execute_query_def split: if_splits option.splits sum.splits)
  with assms have "same_answers h1 h2 (report_def jr')" by simp
  then have "generate_html_text h1 (report_def jr') (jr_data jr') (jr_parameters jr')
      = generate_html_text h2 (report_def jr') (jr_data jr') (jr_parameters jr')"
    by (rule generate_html_text_same)
  with Inr show ?thesis by (simp add: generate_html_def bind_r_def)
qed

lemma rewrite_name_ref: "rewrite ''$F{name}'' = get_call ''data'' ''name''"
  using rewrite_field_ref [of "''name''"]
  by (simp add: simple_name_def plain_name_def plain_char_def)

theorem generate_html_same_answers_same_document_witness:
  "generate_html ex_host
     \<lparr>report_def = name_report, jr_data = [[(''name'', PyStr ''Item 1'')]], jr_parameters = [],
      jr_engine = None\<rparr>
   = generate_html (clock_host 2)
     \<lparr>report_def = name_report, jr_data = [[(''name'', PyStr ''Item 1'')]], jr_parameters = [],
      jr_engine = None\<rparr>"
proof -
  have "get_call ''data'' ''name'' \<noteq> clock_text"
    by (simp add: get_call_def clock_text_def)
  then have "same_answers ex_host (clock_host 2) name_report"
    by (simp add: same_answers_def clock_host_def ex_host_def name_report_def empty_report_def
        band_of_def text_field_def rewrite_name_ref)
  then show ?thesis
    by (intro generate_html_same_answers_same_document) simp
qed

text \<open>
  Claim C10, as stated, fails on a template whose detail band has the text field
  \<^verbatim>\<open>__import__('time').time()\<close>, with one data row. The expression has no reference and is
  given to \<^verbatim>\<open>eval\<close> as it is; the document shows the time of the generation. Two
  generations from the same template, data and parameters, one when the clock shows 1 and
  one when it shows 2, give different documents.
\<close>

theorem generate_html_clock_example:
  "generate_html_text (clock_host 1) clock_report [[]] []
     \<noteq> generate_html_text (clock_host 2) clock_report [[]] []"
proof -
  have r: "rewrite clock_text = clock_text"
    by (rule rewrite_untouched)
       (simp add: untouched_def clock_text_def strip_cdata_def cdata_open_def)
  have q: "\<not> (prefix [dq] clock_text \<and> suffix [dq] clock_text)" "clock_text \<noteq> []"
    by (simp_all add: clock_text_def dq_def)
  have e: "\<And>t self. evaluate (clock_host t) self clock_text = ex_float_str t"
    using q by (auto simp: evaluate_def r clock_host_def Let_def)
  have c: "\<And>t s. format_currency (clock_host t) (text_field clock_text) s = s"
    by (simp add: format_currency_def text_field_def clock_text_def py_lower_def lower_char_def)
  have tf: "element_type (text_field clock_text) = ''textField''"
    "el_expression (text_field clock_text) = Some clock_text"
    by (simp_all add: text_field_def)
  have ec: "\<And>t. element_content (clock_host t) [] [] (text_field clock_text) []
      (Some (ExpressionEvaluator [] [] [])) = ex_float_str t"
    using q(2) by (simp add: element_content_def tf e)
  have bd: "map_of (rd_bands clock_report) ''detail''
      = Some (snd (band_of ''detail'' [text_field clock_text]))"
    by (simp add: clock_report_def empty_report_def band_of_def)
  have d: "\<And>t. render_detail_row (clock_host t) clock_report [] [] []
      = band_open ''band'' (snd (band_of ''detail'' [text_field clock_text]))
        @ (''<div class='' @ [dq] @ ''element textField'' @ [dq] @ '' style='' @ [dq]
           @ join ''; '' (style_parts (text_field clock_text)) @ [dq] @ ''>''
           @ ex_float_str t @ ''</div>'')
        @ ''</div>''"
    by (simp add: render_detail_row_def bd render_band_def render_element_def c ec tf(1) dq_def
        band_of_def)
  have n: "ex_float_str 1 \<noteq> ex_float_str 2"
    by (simp add: ex_float_str_def str_int_def digit_char_def)
  have b: "map_of (rd_bands clock_report) ''title'' = None"
    "map_of (rd_bands clock_report) ''pageHeader'' = None"
    "map_of (rd_bands clock_report) ''columnHeader'' = None"
    "map_of (rd_bands clock_report) ''pageFooter'' = None"
    "map_of (rd_bands clock_report) ''summary'' = None"
    "rd_groups clock_report = []"
    by (simp_all add: clock_report_def empty_report_def band_of_def)
  have "\<And>t. generate_html_text (clock_host t) clock_report [[]] []
      = concat (map snd [('''', join [nl]
                  [''<!DOCTYPE html>'',
                   ''<html>'',
                   ''<head>'',
                   ''    <meta charset='' @ [dq] @ ''UTF-8'' @ [dq] @ ''>'',
                   ''    <title>'' @ rd_name clock_report @ ''</title>'',
                   ''    <style>'' @ generate_css clock_report @ ''</style>'',
                   ''</head>'',
                   ''<body>'',
                   ''    <div class='' @ [dq] @ ''report-container'' @ [dq] @ ''>'',
                   ''        '']),
                 ('''', nl # ''        ''), ('''', nl # ''        '')])
        @ render_detail_row (clock_host t) clock_report [] [] []
        @ concat (map snd [('''', nl # ''        ''), ('''', nl # ''        ''),
             ('''', join [nl] ['''', ''    </div>'', ''</body>'', ''</html>''])])"
    by (simp add: generate_html_text_def generate_html_pieces_def html_of_def render_content_def
        render_simple_content_def render_title_def render_page_header_def
        render_page_footer_def render_summary_def dict_has_def b dq_def)
  then show ?thesis
    using n by (simp only: d same_append_eq append_same_eq append_assoc) simp
qed


end
